theory Spec2Isabelle
  imports Main "HOL-Library.Word" "HOL-Library.AList"
begin

unbundle bit_operations_syntax

section \<open>The ovrlog logging core (Logging.cpp)\<close>

text \<open>
  The development embeds the logging core of the repository: the repeated-message
  detector (\<open>RepeatedMessageManager\<close>), the bounded work queue with its dispatcher
  (\<open>OutputWorker\<close>), the sink registry and the channel configurator.

  Conventions of the embedding.
  \<^item> A \<open>const char*\<close> is the list of characters before its terminating NUL.
  \<^item> Each operation receives the clock reading it makes as an argument \<open>now\<close>, in
    milliseconds (the value of \<open>GetCurrentLogMillisecondTime\<close>).
  \<^item> The source is conditionally compiled. The branches for other platforms leave the
    dispatcher thread and \<open>Flush\<close> unimplemented, so the \<open>_WIN32\<close> branches are
    the ones embedded.
  \<^item> The constants of the class declarations (\<open>Logging_Library.h\<close>, not part of the
    sources at hand) are fields of the record \<open>Config\<close>; no theorem fixes their values.
  \<^item> A hash container is an association list with distinct keys; the list order stands for
    the iteration order of the container.
  \<^item> Every operation is one atomic step: locks are not modelled.
\<close>

subsection \<open>Data model\<close>

datatype Level = Disabled | Trace | Debug | Info | Warning | Error

datatype WriteOption = Default | DangerouslyIgnoreQueueLimit

datatype HandleResult = Passed | Aggregated

type_synonym PrefixHashType = "32 word"

type_synonym LogTimeMs = int

record Config =
  messagePrefixLength :: nat
  maxDeferrableDetectionTimeMs :: int
  printedRepeatCount :: nat
  maxDeferredMessages :: nat
  recentMessageCount :: nat
  WorkQueueLimit :: nat

subsection \<open>Sink registry\<close>

text \<open>
  A sink is known to the registry by the address of its object (the value of the shared
  pointer) and by the string its \<open>GetUniquePluginName\<close> returns. A null shared pointer
  is \<open>None\<close>. \<open>Plugins\<close> is a set of shared pointers, here a list without repetition
  whose order is the order in which the loops visit the set (\<open>List.insert\<close> puts a new
  element first).
\<close>

record OutputPlugin =
  PluginAddress :: nat
  UniquePluginName :: string

text \<open>The loop of \<open>RemovePlugin\<close>: erase the first sink whose name matches, then break.\<close>

fun erase_first_named :: "string \<Rightarrow> OutputPlugin list \<Rightarrow> OutputPlugin list" where
  "erase_first_named n [] = []"
| "erase_first_named n (q # qs) =
     (if UniquePluginName q = n then qs else q # erase_first_named n qs)"

definition RemovePlugin :: "OutputPlugin option \<Rightarrow> OutputPlugin list \<Rightarrow> OutputPlugin list" where
  "RemovePlugin pluginToRemove plugins =
     (case pluginToRemove of
        None \<Rightarrow> plugins
      | Some p \<Rightarrow> erase_first_named (UniquePluginName p) plugins)"

definition AddPlugin :: "OutputPlugin option \<Rightarrow> OutputPlugin list \<Rightarrow> OutputPlugin list" where
  "AddPlugin plugin plugins =
     (case plugin of
        None \<Rightarrow> plugins
      | Some p \<Rightarrow> List.insert p (RemovePlugin (Some p) plugins))"

definition GetPlugin :: "string \<Rightarrow> OutputPlugin list \<Rightarrow> OutputPlugin option" where
  "GetPlugin pluginName plugins = find (\<lambda>q. UniquePluginName q = pluginName) plugins"

definition DisableAllPlugins :: "OutputPlugin list \<Rightarrow> OutputPlugin list" where
  "DisableAllPlugins plugins = []"

text \<open>The sinks registered under a name, and the registry after a run of \<open>AddPlugin\<close> calls.\<close>

definition registered_as :: "string \<Rightarrow> OutputPlugin list \<Rightarrow> OutputPlugin list" where
  "registered_as n plugins = filter (\<lambda>q. UniquePluginName q = n) plugins"

definition AddPlugins :: "OutputPlugin list \<Rightarrow> OutputPlugin list \<Rightarrow> OutputPlugin list" where
  "AddPlugins ps plugins = fold (\<lambda>p. AddPlugin (Some p)) ps plugins"

definition unique_names :: "OutputPlugin list \<Rightarrow> bool" where
  "unique_names plugins = distinct (map UniquePluginName plugins)"

subsection \<open>Repeated-message detector: state\<close>

text \<open>
  The struct \<open>RepeatedMessage\<close> is declared in \<open>Logging_Library.h\<close>. Its fields are
  the ones the functions below read and write. The counters start at zero and are only
  incremented, added to one another or set back to zero, so they are natural numbers.
\<close>

record RepeatedMessage =
  subsystemName :: string
  messageLogLevel :: Level
  stream :: string
  initialTimeMs :: LogTimeMs
  lastTimeMs :: LogTimeMs
  printedCount :: nat
  aggregatedCount :: nat

record RecentMessage =
  timeMs :: LogTimeMs

record RepeatedMessageManager =
  BusyInWrite :: bool
  RecentMessageMap :: "(PrefixHashType \<times> RecentMessage) list"
  RepeatedMessageMap :: "(PrefixHashType \<times> RepeatedMessage) list"
  RepeatedMessageExceptionSet :: "PrefixHashType set"
  RepeatedMessageSubsystemExceptionSet :: "PrefixHashType set"

text \<open>
  Modelled from the spec: the constructor of \<open>RepeatedMessage\<close> (declared in
  \<open>Logging_Library.h\<close>). \<open>HandleMessage\<close> calls it with the subsystem, the level, the
  text, the current time twice and \<open>0\<close>; the spec says the entry is created with zero
  printed and aggregated counts and the current time as first- and last-seen time.
\<close>

definition RepeatedMessage_ctor ::
  "string \<Rightarrow> Level \<Rightarrow> string \<Rightarrow> LogTimeMs \<Rightarrow> LogTimeMs \<Rightarrow> nat \<Rightarrow> RepeatedMessage" where
  "RepeatedMessage_ctor subsystemName' messageLogLevel' stream' initialTimeMs' lastTimeMs' aggregatedCount' =
     \<lparr>subsystemName = subsystemName', messageLogLevel = messageLogLevel', stream = stream',
      initialTimeMs = initialTimeMs', lastTimeMs = lastTimeMs',
      printedCount = 0, aggregatedCount = aggregatedCount'\<rparr>"

definition RepeatedMessageManager_ctor :: RepeatedMessageManager where
  "RepeatedMessageManager_ctor =
     \<lparr>BusyInWrite = False, RecentMessageMap = [], RepeatedMessageMap = [],
      RepeatedMessageExceptionSet = {}, RepeatedMessageSubsystemExceptionSet = {}\<rparr>"

subsection \<open>Time difference and hash\<close>

text \<open>Times are milliseconds since midnight; an end before the begin is taken to be on
  the next day.\<close>

definition GetLogMillisecondTimeDifference :: "LogTimeMs \<Rightarrow> LogTimeMs \<Rightarrow> int" where
  "GetLogMillisecondTimeDifference begin end' =
     (if end' \<ge> begin then end' - begin else 86400000 + (end' - begin))"

text \<open>
  One round of the hash loop on the 32-bit accumulator:
  \<open>hash += (hash << 1) + (hash << 4) + (hash << 7) + (hash << 8) + (hash << 24);
  hash ^= (uint8_t)*p++\<close>. The loop stops at the NUL or after \<open>messagePrefixLength\<close>
  characters.
\<close>

definition GetHash_round :: "PrefixHashType \<Rightarrow> char \<Rightarrow> PrefixHashType" where
  "GetHash_round hash c =
     (hash + (push_bit 1 hash + push_bit 4 hash + push_bit 7 hash + push_bit 8 hash
               + push_bit 24 hash)) XOR of_char c"

definition GetHash :: "Config \<Rightarrow> string \<Rightarrow> PrefixHashType" where
  "GetHash cfg p = foldl GetHash_round 2166136261 (take (messagePrefixLength cfg) p)"

subsection \<open>HandleMessage\<close>

definition HandleMessage ::
  "Config \<Rightarrow> LogTimeMs \<Rightarrow> string \<Rightarrow> Level \<Rightarrow> string \<Rightarrow> RepeatedMessageManager
     \<Rightarrow> HandleResult \<times> RepeatedMessageManager" where
  "HandleMessage cfg now subsystemName' messageLogLevel' stream' m =
     (if BusyInWrite m then (Passed, m)
      else if GetHash cfg stream' \<in> RepeatedMessageExceptionSet m then (Passed, m)
      else if GetHash cfg subsystemName' \<in> RepeatedMessageSubsystemExceptionSet m then (Passed, m)
      else
        (case map_of (RepeatedMessageMap m) (GetHash cfg stream') of
           Some repeatedMessage \<Rightarrow>
             if GetLogMillisecondTimeDifference (lastTimeMs repeatedMessage) now
                  < maxDeferrableDetectionTimeMs cfg
             then
               (if printedCount repeatedMessage < printedRepeatCount cfg
                then
                  (Passed,
                   m\<lparr>RepeatedMessageMap :=
                       AList.update (GetHash cfg stream')
                         (repeatedMessage\<lparr>lastTimeMs := now,
                            printedCount := printedCount repeatedMessage + 1\<rparr>)
                         (RepeatedMessageMap m)\<rparr>)
                else
                  (Aggregated,
                   m\<lparr>RepeatedMessageMap :=
                       AList.update (GetHash cfg stream')
                         (if aggregatedCount repeatedMessage + 1 \<ge> maxDeferredMessages cfg
                          then repeatedMessage\<lparr>lastTimeMs := now,
                                 aggregatedCount := aggregatedCount repeatedMessage + 1,
                                 stream := stream'\<rparr>
                          else repeatedMessage\<lparr>lastTimeMs := now,
                                 aggregatedCount := aggregatedCount repeatedMessage + 1\<rparr>)
                         (RepeatedMessageMap m)\<rparr>))
             else (Passed, m)
         | None \<Rightarrow>
             (case map_of (RecentMessageMap m) (GetHash cfg stream') of
                Some itRecent \<Rightarrow>
                  (Passed,
                   m\<lparr>RepeatedMessageMap :=
                       AList.update (GetHash cfg stream')
                         (RepeatedMessage_ctor subsystemName' messageLogLevel' stream' now now 0)
                         (RepeatedMessageMap m),
                     RecentMessageMap := AList.delete (GetHash cfg stream') (RecentMessageMap m)\<rparr>)
              | None \<Rightarrow>
                  (Passed,
                   m\<lparr>RecentMessageMap :=
                       AList.update (GetHash cfg stream') \<lparr>timeMs = now\<rparr>
                         (RecentMessageMap m)\<rparr>))))"

subsection \<open>Exception sets\<close>

definition AddRepeatedMessageException :: "Config \<Rightarrow> string \<Rightarrow> RepeatedMessageManager \<Rightarrow> RepeatedMessageManager" where
  "AddRepeatedMessageException cfg messagePrefix m =
     m\<lparr>RepeatedMessageExceptionSet := insert (GetHash cfg messagePrefix) (RepeatedMessageExceptionSet m)\<rparr>"

definition RemoveRepeatedMessageException :: "Config \<Rightarrow> string \<Rightarrow> RepeatedMessageManager \<Rightarrow> RepeatedMessageManager" where
  "RemoveRepeatedMessageException cfg messagePrefix m =
     (if GetHash cfg messagePrefix \<in> RepeatedMessageExceptionSet m
      then m\<lparr>RepeatedMessageExceptionSet := RepeatedMessageExceptionSet m - {GetHash cfg messagePrefix}\<rparr>
      else m)"

definition AddRepeatedMessageSubsystemException :: "Config \<Rightarrow> string \<Rightarrow> RepeatedMessageManager \<Rightarrow> RepeatedMessageManager" where
  "AddRepeatedMessageSubsystemException cfg subsystemName' m =
     m\<lparr>RepeatedMessageSubsystemExceptionSet :=
         insert (GetHash cfg subsystemName') (RepeatedMessageSubsystemExceptionSet m)\<rparr>"

text \<open>
  \<open>RemoveRepeatedMessageSubsytemException\<close> looks the hash up in
  \<open>RepeatedMessageSubsystemExceptionSet\<close>, compares the iterator it gets with
  \<open>RepeatedMessageExceptionSet.end()\<close>, the end of the other set, and then calls
  \<open>RepeatedMessageExceptionSet.erase(it)\<close>. Every execution compares iterators of two
  different containers: when the hash is absent the outcome of the test is the library's
  (the end iterators of two containers need not compare equal), and when the hash is found
  the erase goes through an iterator that does not belong to the container it is called
  on, which is where the program crashes in practice. C++ gives neither a meaning, so the
  call has no defined result on any input: \<open>None\<close>.
\<close>

definition RemoveRepeatedMessageSubsytemException :: "Config \<Rightarrow> string \<Rightarrow> RepeatedMessageManager \<Rightarrow> RepeatedMessageManager option" where
  "RemoveRepeatedMessageSubsytemException cfg subsystemName' m = None"

subsection \<open>Work queue and Write\<close>

text \<open>
  A queued record; the \<open>Next\<close> pointers are the list structure of \<open>WorkQueue\<close>. A flush
  sentinel carries the handle of its event in \<open>FlushEvent\<close>; \<open>None\<close> is the null handle.
\<close>

record QueuedLogMessage =
  SubsystemName :: string
  MessageLogLevel :: Level
  Buffer :: string
  Time :: LogTimeMs
  FlushEvent :: "nat option"

text \<open>
  The worker. \<open>LoggingThread\<close> is the validity of the thread handle, \<open>WorkerWakeEvent\<close>
  the signalled state of the wake event, \<open>WorkerTerminator\<close> the termination flag, and
  \<open>DbgView\<close> the lines written synchronously to the debugger stream so far.
\<close>

record OutputWorker =
  IsInDebugger :: bool
  Plugins :: "OutputPlugin list"
  WorkerWakeEvent :: bool
  WorkQueue :: "QueuedLogMessage list"
  WorkQueueSize :: nat
  WorkQueueOverrun :: nat
  WorkerTerminator :: bool
  LoggingThread :: bool
  RepeatedMessageManagerInstance :: RepeatedMessageManager
  DbgView :: "string list"

definition QueuedLogMessage_ctor :: "string \<Rightarrow> Level \<Rightarrow> string \<Rightarrow> LogTimeMs \<Rightarrow> QueuedLogMessage" where
  "QueuedLogMessage_ctor subsystemName' messageLogLevel' stream' time =
     \<lparr>SubsystemName = subsystemName', MessageLogLevel = messageLogLevel', Buffer = stream',
      Time = time, FlushEvent = None\<rparr>"

text \<open>
  Modelled from the spec: \<open>WorkQueueAdd\<close> (defined in \<open>Logging_Library.h\<close>). The spec
  says the record is appended and the size incremented; the callers' comments say it is
  added to the end of the work queue.
\<close>

definition WorkQueueAdd :: "QueuedLogMessage \<Rightarrow> OutputWorker \<Rightarrow> OutputWorker" where
  "WorkQueueAdd msg w = w\<lparr>WorkQueue := WorkQueue w @ [msg], WorkQueueSize := WorkQueueSize w + 1\<rparr>"

text \<open>
  The header of a rendered line. \<open>WriteAdvanceStrCpy\<close> copies a string only when it fits
  with its terminator; the pair is the text written so far and the bytes left. (The
  \<open>default\<close> branch of the switch in \<open>AppendHeader\<close> is for values outside the
  enumeration.)
\<close>

definition WriteAdvanceStrCpy :: "string \<times> nat \<Rightarrow> string \<Rightarrow> string \<times> nat" where
  "WriteAdvanceStrCpy b str =
     (if snd b < length str + 1 then b else (fst b @ str, snd b - length str))"

fun AppendHeader_initial :: "Level \<Rightarrow> string" where
  "AppendHeader_initial Disabled = '' {DISABLED}[''"
| "AppendHeader_initial Trace = '' {TRACE}   [''"
| "AppendHeader_initial Debug = '' {DEBUG}   [''"
| "AppendHeader_initial Info = '' {INFO}    [''"
| "AppendHeader_initial Warning = '' {WARNING} [''"
| "AppendHeader_initial Error = '' {!ERROR!} [''"

definition AppendHeader :: "nat \<Rightarrow> Level \<Rightarrow> string \<Rightarrow> string" where
  "AppendHeader bufferBytes level subsystemName' =
     fst (WriteAdvanceStrCpy
            (WriteAdvanceStrCpy
               (WriteAdvanceStrCpy ([], bufferBytes) (AppendHeader_initial level))
               subsystemName')
            ''] '')"

text \<open>
  The timestamp text comes from the date and time formatting of the operating system; it is
  the parameter \<open>GetTimestamp\<close> of the functions that render a line (the empty string when
  the formatting fails). \<open>TempBufferBytes\<close> is 1024.
\<close>

definition FlushDbgViewLogImmediately ::
  "(LogTimeMs \<Rightarrow> string) \<Rightarrow> LogTimeMs \<Rightarrow> string \<Rightarrow> Level \<Rightarrow> string \<Rightarrow> OutputWorker \<Rightarrow> OutputWorker" where
  "FlushDbgViewLogImmediately GetTimestamp now subsystemName' messageLogLevel' stream' w =
     (if length (GetTimestamp now) \<le> 0 then w
      else w\<lparr>DbgView := DbgView w @
             [GetTimestamp now
                @ AppendHeader (1024 - length (GetTimestamp now)) messageLogLevel' subsystemName'
                @ stream' @ [CHR 0x0A]]\<rparr>)"

definition Write ::
  "Config \<Rightarrow> (LogTimeMs \<Rightarrow> string) \<Rightarrow> LogTimeMs \<Rightarrow> string \<Rightarrow> Level \<Rightarrow> string \<Rightarrow> bool \<Rightarrow> WriteOption
     \<Rightarrow> OutputWorker \<Rightarrow> OutputWorker" where
  "Write cfg GetTimestamp now subsystemName' messageLogLevel' stream' relogged option w =
     (case HandleMessage cfg now subsystemName' messageLogLevel' stream'
             (RepeatedMessageManagerInstance w) of
        (result, m) \<Rightarrow>
          if result = Aggregated then w\<lparr>RepeatedMessageManagerInstance := m\<rparr>
          else
            (let w0 = w\<lparr>RepeatedMessageManagerInstance := m\<rparr>;
                 dropped = (option \<noteq> DangerouslyIgnoreQueueLimit
                            \<and> WorkQueueSize w0 \<ge> WorkQueueLimit cfg);
                 w1 = (if dropped then w0\<lparr>WorkQueueOverrun := WorkQueueOverrun w0 + 1\<rparr>
                       else WorkQueueAdd
                              (QueuedLogMessage_ctor subsystemName' messageLogLevel' stream' now) w0);
                 needToWakeWorkerThread = (\<not> dropped \<and> WorkQueueSize w1 \<le> 1);
                 w2 = (if \<not> dropped \<and> needToWakeWorkerThread
                       then w1\<lparr>WorkerWakeEvent := True\<rparr> else w1)
             in if \<not> relogged \<and> IsInDebugger w2
                then FlushDbgViewLogImmediately GetTimestamp now subsystemName' messageLogLevel'
                       stream' w2
                else w2))"

subsection \<open>Poll and the deferred aggregate\<close>

text \<open>The digits \<open>%d\<close> and \<open>%i\<close> print for a count (\<open>digit_char\<close> is only
  applied to numbers below ten).\<close>

definition digit_char :: "nat \<Rightarrow> char" where
  "digit_char d = ''0123456789'' ! d"

fun decimal :: "nat \<Rightarrow> string" where
  "decimal n = (if n < 10 then [digit_char n] else decimal (n div 10) @ [digit_char (n mod 10)])"

declare decimal.simps [simp del]

definition AggregatePrefix :: "nat \<Rightarrow> string" where
  "AggregatePrefix n = ''[Aggregated '' @ decimal n @ '' times] ''"

text \<open>
  \<open>PrintDeferredAggregateMessage\<close> prepends the prefix to the captured text and hands the
  result to \<open>Write\<close> of the worker that owns the manager, with \<open>BusyInWrite\<close> set around
  the call.
\<close>

definition PrintDeferredAggregateMessage ::
  "Config \<Rightarrow> (LogTimeMs \<Rightarrow> string) \<Rightarrow> LogTimeMs \<Rightarrow> RepeatedMessage \<Rightarrow> OutputWorker \<Rightarrow> OutputWorker" where
  "PrintDeferredAggregateMessage cfg GetTimestamp now repeatedMessage w =
     (let w1 = w\<lparr>RepeatedMessageManagerInstance :=
                   (RepeatedMessageManagerInstance w)\<lparr>BusyInWrite := True\<rparr>\<rparr>;
          w2 = Write cfg GetTimestamp now (subsystemName repeatedMessage)
                 (messageLogLevel repeatedMessage)
                 (AggregatePrefix (aggregatedCount repeatedMessage) @ stream repeatedMessage)
                 False DangerouslyIgnoreQueueLimit w1
      in w2\<lparr>RepeatedMessageManagerInstance :=
               (RepeatedMessageManagerInstance w2)\<lparr>BusyInWrite := False\<rparr>\<rparr>)"

text \<open>The record a deferred aggregate leaves in the work queue: the one \<open>Write\<close>
  builds from the arguments \<open>PrintDeferredAggregateMessage\<close> passes.\<close>

definition SummaryRecord :: "LogTimeMs \<Rightarrow> RepeatedMessage \<Rightarrow> QueuedLogMessage" where
  "SummaryRecord now repeatedMessage =
     QueuedLogMessage_ctor (subsystemName repeatedMessage) (messageLogLevel repeatedMessage)
       (AggregatePrefix (aggregatedCount repeatedMessage) @ stream repeatedMessage) now"

text \<open>
  The pruning block of \<open>Poll\<close>: the first \<open>recentMessageCount * 3\<close> iterators are copied
  to \<open>itArray\<close>, sorted newest first, and then every element of the array is erased. An
  iterator is the entry it designates; erasing it removes the entry of that key.
  (\<open>std::sort\<close> leaves the order of equal times open; \<open>sort_key\<close> fixes one.)
\<close>

definition Poll_prune :: "Config \<Rightarrow> (PrefixHashType \<times> RecentMessage) list \<Rightarrow> (PrefixHashType \<times> RecentMessage) list" where
  "Poll_prune cfg recent =
     (if length recent > recentMessageCount cfg * 2
      then
        (let itArray = take (recentMessageCount cfg * 3) recent;
             sorted = sort_key (\<lambda>it. - timeMs (snd it)) itArray
         in fold (\<lambda>it m. AList.delete (fst it) m) sorted recent)
      else recent)"

text \<open>
  The loop of \<open>Poll\<close> over \<open>RepeatedMessageMap\<close>: the messages to print, in the order
  they are collected, and the map the loop leaves.
\<close>

fun Poll_scan ::
  "Config \<Rightarrow> LogTimeMs \<Rightarrow> (PrefixHashType \<times> RepeatedMessage) list
     \<Rightarrow> RepeatedMessage list \<times> (PrefixHashType \<times> RepeatedMessage) list" where
  "Poll_scan cfg now [] = ([], [])"
| "Poll_scan cfg now (it # rest) =
     (if GetLogMillisecondTimeDifference (lastTimeMs (snd it)) now > maxDeferrableDetectionTimeMs cfg
      then
        (if aggregatedCount (snd it) \<noteq> 0
         then (snd it # fst (Poll_scan cfg now rest), snd (Poll_scan cfg now rest))
         else Poll_scan cfg now rest)
      else if aggregatedCount (snd it) \<ge> maxDeferredMessages cfg
      then
        (snd it # fst (Poll_scan cfg now rest),
         (fst it, (snd it)\<lparr>printedCount := printedCount (snd it) + aggregatedCount (snd it),
                            aggregatedCount := 0\<rparr>) # snd (Poll_scan cfg now rest))
      else (fst (Poll_scan cfg now rest), it # snd (Poll_scan cfg now rest)))"

definition Poll :: "Config \<Rightarrow> (LogTimeMs \<Rightarrow> string) \<Rightarrow> LogTimeMs \<Rightarrow> OutputWorker \<Rightarrow> OutputWorker" where
  "Poll cfg GetTimestamp now w =
     (let m = RepeatedMessageManagerInstance w;
          recent = Poll_prune cfg (RecentMessageMap m);
          messagesToPrint = fst (Poll_scan cfg now (RepeatedMessageMap m));
          repeated = snd (Poll_scan cfg now (RepeatedMessageMap m));
          w1 = w\<lparr>RepeatedMessageManagerInstance :=
                   m\<lparr>RecentMessageMap := recent, RepeatedMessageMap := repeated\<rparr>\<rparr>
      in fold (PrintDeferredAggregateMessage cfg GetTimestamp now) messagesToPrint w1)"

subsection \<open>Dispatch, Flush and Stop\<close>

text \<open>What the fan-out does: a sink's \<open>Write\<close> with level, subsystem, header and body, or
  the signalling of a flush event.\<close>

datatype SinkAction =
    SetEvent nat
  | PluginWrite OutputPlugin Level string string string

definition LostMessage :: "nat \<Rightarrow> LogTimeMs \<Rightarrow> QueuedLogMessage" where
  "LostMessage lostCount t =
     QueuedLogMessage_ctor ''Logging'' Error
       (''Lost '' @ decimal lostCount
          @ '' log messages due to queue overrun; try to reduce the amount of logging'') t"

text \<open>The batch that is fanned out: the detached queue, with the record of the lost
  messages inserted at the front when some were lost.\<close>

definition DispatchBatch :: "nat \<Rightarrow> LogTimeMs \<Rightarrow> QueuedLogMessage list \<Rightarrow> QueuedLogMessage list" where
  "DispatchBatch lostCount now message =
     (if lostCount > 0 then LostMessage lostCount now # message else message)"

definition DispatchMessage :: "(LogTimeMs \<Rightarrow> string) \<Rightarrow> OutputPlugin list \<Rightarrow> QueuedLogMessage \<Rightarrow> SinkAction list" where
  "DispatchMessage GetTimestamp plugins message =
     (case FlushEvent message of
        Some flushEvent \<Rightarrow> [SetEvent flushEvent]
      | None \<Rightarrow>
          map (\<lambda>plugin.
                 PluginWrite plugin (MessageLogLevel message) (SubsystemName message)
                   (GetTimestamp (Time message)
                      @ AppendHeader (1024 - length (GetTimestamp (Time message)))
                          (MessageLogLevel message) (SubsystemName message))
                   (Buffer message))
            plugins)"

definition ProcessQueuedMessages ::
  "Config \<Rightarrow> (LogTimeMs \<Rightarrow> string) \<Rightarrow> LogTimeMs \<Rightarrow> OutputWorker \<Rightarrow> SinkAction list \<times> OutputWorker" where
  "ProcessQueuedMessages cfg GetTimestamp now w =
     (let w1 = Poll cfg GetTimestamp now w;
          message = WorkQueue w1;
          lostCount = WorkQueueOverrun w1;
          w2 = w1\<lparr>WorkQueue := [], WorkQueueOverrun := 0, WorkQueueSize := 0\<rparr>
      in if message = [] then ([], w2)
         else (concat (map (DispatchMessage GetTimestamp (Plugins w2))
                         (DispatchBatch lostCount now message)), w2))"

text \<open>
  Modelled from the spec: the macro \<open>LOGGING_DEBUG_BREAK\<close> (defined in a header that is
  not at hand). The spec says the violation is reported and ignored, never a crash; the
  report is the result \<open>FlushDebugBreak\<close>. Otherwise \<open>Flush\<close> returns once the event it
  waits for is signalled: \<open>FlushWaitsFor\<close> names the handle (the result of \<open>CreateEventW\<close>,
  an argument here).
\<close>

datatype FlushResult = FlushDebugBreak | FlushWaitsFor "nat option"

definition Flush :: "LogTimeMs \<Rightarrow> nat option \<Rightarrow> OutputWorker \<Rightarrow> FlushResult \<times> OutputWorker" where
  "Flush now flushEvent w =
     (if \<not> LoggingThread w then (FlushDebugBreak, w)
      else
        (FlushWaitsFor flushEvent,
         (WorkQueueAdd ((QueuedLogMessage_ctor ''Logging'' Info [] now)\<lparr>FlushEvent := flushEvent\<rparr>) w)
           \<lparr>WorkerWakeEvent := True\<rparr>))"

text \<open>\<open>Stop\<close>, with the dispatcher thread idle when it is called.\<close>

definition Stop :: "Config \<Rightarrow> (LogTimeMs \<Rightarrow> string) \<Rightarrow> LogTimeMs \<Rightarrow> OutputWorker \<Rightarrow> SinkAction list \<times> OutputWorker" where
  "Stop cfg GetTimestamp now w =
     ProcessQueuedMessages cfg GetTimestamp now
       (if LoggingThread w then w\<lparr>WorkerTerminator := True, LoggingThread := False\<rparr> else w)"

subsection \<open>Runs of calls\<close>

text \<open>A call as a producer makes it: the time at which it is made, the subsystem, the
  level and the text; a call of \<open>Write\<close> has the \<open>relogged\<close> flag as well.\<close>

record MessageCall =
  callTime :: LogTimeMs
  callSubsystem :: string
  callLevel :: Level
  callText :: string

record WriteCall = MessageCall +
  callRelogged :: bool

text \<open>A run of \<open>HandleMessage\<close> calls: the results in order and the manager afterwards.\<close>

fun HandleMessages ::
  "Config \<Rightarrow> 'a MessageCall_scheme list \<Rightarrow> RepeatedMessageManager
     \<Rightarrow> HandleResult list \<times> RepeatedMessageManager" where
  "HandleMessages cfg [] m = ([], m)"
| "HandleMessages cfg (c # cs) m =
     (fst (HandleMessage cfg (callTime c) (callSubsystem c) (callLevel c) (callText c) m)
        # fst (HandleMessages cfg cs
                 (snd (HandleMessage cfg (callTime c) (callSubsystem c) (callLevel c)
                         (callText c) m))),
      snd (HandleMessages cfg cs
             (snd (HandleMessage cfg (callTime c) (callSubsystem c) (callLevel c)
                     (callText c) m))))"

text \<open>Each call of a run arrives within the aggregation window measured from the
  occurrence before it, the way \<open>HandleMessage\<close> measures it; \<open>last_seen\<close> is the time
  of the last occurrence.\<close>

fun within_window :: "Config \<Rightarrow> LogTimeMs \<Rightarrow> 'a MessageCall_scheme list \<Rightarrow> bool" where
  "within_window cfg lastTime [] = True"
| "within_window cfg lastTime (c # cs) =
     (GetLogMillisecondTimeDifference lastTime (callTime c) < maxDeferrableDetectionTimeMs cfg
      \<and> within_window cfg (callTime c) cs)"

fun last_seen :: "LogTimeMs \<Rightarrow> 'a MessageCall_scheme list \<Rightarrow> LogTimeMs" where
  "last_seen lastTime [] = lastTime"
| "last_seen lastTime (c # cs) = last_seen (callTime c) cs"

text \<open>A run of \<open>Write\<close> calls with one option, and the record \<open>Write\<close> queues for a
  call.\<close>

fun Writes ::
  "Config \<Rightarrow> (LogTimeMs \<Rightarrow> string) \<Rightarrow> WriteOption \<Rightarrow> WriteCall list \<Rightarrow> OutputWorker
     \<Rightarrow> OutputWorker" where
  "Writes cfg GetTimestamp option [] w = w"
| "Writes cfg GetTimestamp option (c # cs) w =
     Writes cfg GetTimestamp option cs
       (Write cfg GetTimestamp (callTime c) (callSubsystem c) (callLevel c) (callText c)
          (callRelogged c) option w)"

definition WriteCall_record :: "WriteCall \<Rightarrow> QueuedLogMessage" where
  "WriteCall_record c =
     QueuedLogMessage_ctor (callSubsystem c) (callLevel c) (callText c) (callTime c)"

text \<open>The calls that reach the manager, as the worker and its clients make them. A call
  gives the worker it leaves, or \<open>None\<close> when it has no defined result.\<close>

datatype ManagerCall =
    CallHandleMessage LogTimeMs string Level string
  | CallPoll LogTimeMs
  | CallAddRepeatedMessageException string
  | CallRemoveRepeatedMessageException string
  | CallAddRepeatedMessageSubsystemException string
  | CallRemoveRepeatedMessageSubsytemException string

fun manager_call :: "Config \<Rightarrow> (LogTimeMs \<Rightarrow> string) \<Rightarrow> ManagerCall \<Rightarrow> OutputWorker \<Rightarrow> OutputWorker option" where
  "manager_call cfg GetTimestamp (CallHandleMessage now subsystemName' messageLogLevel' stream') w =
     Some (w\<lparr>RepeatedMessageManagerInstance :=
         snd (HandleMessage cfg now subsystemName' messageLogLevel' stream'
                (RepeatedMessageManagerInstance w))\<rparr>)"
| "manager_call cfg GetTimestamp (CallPoll now) w = Some (Poll cfg GetTimestamp now w)"
| "manager_call cfg GetTimestamp (CallAddRepeatedMessageException p) w =
     Some (w\<lparr>RepeatedMessageManagerInstance :=
         AddRepeatedMessageException cfg p (RepeatedMessageManagerInstance w)\<rparr>)"
| "manager_call cfg GetTimestamp (CallRemoveRepeatedMessageException p) w =
     Some (w\<lparr>RepeatedMessageManagerInstance :=
         RemoveRepeatedMessageException cfg p (RepeatedMessageManagerInstance w)\<rparr>)"
| "manager_call cfg GetTimestamp (CallAddRepeatedMessageSubsystemException p) w =
     Some (w\<lparr>RepeatedMessageManagerInstance :=
         AddRepeatedMessageSubsystemException cfg p (RepeatedMessageManagerInstance w)\<rparr>)"
| "manager_call cfg GetTimestamp (CallRemoveRepeatedMessageSubsytemException p) w =
     map_option (\<lambda>m. w\<lparr>RepeatedMessageManagerInstance := m\<rparr>)
       (RemoveRepeatedMessageSubsytemException cfg p (RepeatedMessageManagerInstance w))"

text \<open>A run of calls. The run ends at the first call that has no defined result: there is
  no state of the program after such a call, and the worker of the run is the last one
  reached.\<close>

fun manager_calls :: "Config \<Rightarrow> (LogTimeMs \<Rightarrow> string) \<Rightarrow> ManagerCall list \<Rightarrow> OutputWorker \<Rightarrow> OutputWorker" where
  "manager_calls cfg GetTimestamp [] w = w"
| "manager_calls cfg GetTimestamp (c # cs) w =
     (case manager_call cfg GetTimestamp c w of
        None \<Rightarrow> w
      | Some w' \<Rightarrow> manager_calls cfg GetTimestamp cs w')"

text \<open>No hash is a key of both maps.\<close>

definition maps_disjoint :: "RepeatedMessageManager \<Rightarrow> bool" where
  "maps_disjoint m =
     (set (map fst (RecentMessageMap m)) \<inter> set (map fst (RepeatedMessageMap m)) = {})"

subsection \<open>Channels and the configurator\<close>

text \<open>
  A channel node gives access to the name, the level and the override flag of its channel.
  The registry is the list that starts at \<open>ChannelNodeHead\<close>. The persistence plugin is its
  \<open>RestoreChannelLevel\<close>, which receives the name and the level to overwrite.
\<close>

record ChannelNode =
  SubsystemName_node :: string
  Level_node :: Level
  UserOverrodeMinimumOutputLevel :: bool

record Configurator =
  GlobalMinimumLogLevel :: Level
  Plugin :: "(string \<Rightarrow> Level \<Rightarrow> Level) option"
  ChannelNodeHead :: "ChannelNode list"

definition SetGlobalMinimumLogLevel :: "Level \<Rightarrow> Configurator \<Rightarrow> Configurator" where
  "SetGlobalMinimumLogLevel level c =
     c\<lparr>GlobalMinimumLogLevel := level,
       ChannelNodeHead := map (\<lambda>channelNode. channelNode\<lparr>Level_node := level\<rparr>) (ChannelNodeHead c)\<rparr>"

definition RestoreChannelLogLevel_node :: "Configurator \<Rightarrow> ChannelNode \<Rightarrow> ChannelNode" where
  "RestoreChannelLogLevel_node c channelNode =
     (let level = (case Plugin c of
                     None \<Rightarrow> GlobalMinimumLogLevel c
                   | Some restore \<Rightarrow> restore (SubsystemName_node channelNode) (GlobalMinimumLogLevel c))
      in if \<not> UserOverrodeMinimumOutputLevel channelNode
         then channelNode\<lparr>Level_node := level\<rparr> else channelNode)"

definition SetChannelNoLock :: "string \<Rightarrow> Level \<Rightarrow> bool \<Rightarrow> Configurator \<Rightarrow> Configurator" where
  "SetChannelNoLock channelName level overrideUser c =
     c\<lparr>ChannelNodeHead :=
         map (\<lambda>channelNode.
                if SubsystemName_node channelNode = channelName
                   \<and> (\<not> UserOverrodeMinimumOutputLevel channelNode \<or> overrideUser)
                then channelNode\<lparr>Level_node := level\<rparr> else channelNode)
           (ChannelNodeHead c)\<rparr>"

definition SetChannel :: "string \<Rightarrow> Level \<Rightarrow> Configurator \<Rightarrow> Configurator" where
  "SetChannel channelName level c = SetChannelNoLock channelName level True c"

definition SetMinimumOutputLevelNoSave :: "Level \<Rightarrow> ChannelNode \<Rightarrow> ChannelNode" where
  "SetMinimumOutputLevelNoSave newLevel channel =
     channel\<lparr>Level_node := newLevel, UserOverrodeMinimumOutputLevel := True\<rparr>"

definition ChannelRegister :: "ChannelNode \<Rightarrow> Configurator \<Rightarrow> Configurator" where
  "ChannelRegister channelNode c =
     c\<lparr>ChannelNodeHead := RestoreChannelLogLevel_node c channelNode # ChannelNodeHead c\<rparr>"

subsection \<open>Worked examples\<close>

text \<open>A small configuration and a running worker with one sink, for the instances the
  theorems are applied to.\<close>

definition example_cfg :: Config where
  "example_cfg =
     \<lparr>messagePrefixLength = 36, maxDeferrableDetectionTimeMs = 1000, printedRepeatCount = 2,
      maxDeferredMessages = 3, recentMessageCount = 1, WorkQueueLimit = 2\<rparr>"

definition example_worker :: OutputWorker where
  "example_worker =
     \<lparr>IsInDebugger = False, Plugins = [\<lparr>PluginAddress = 1, UniquePluginName = ''console''\<rparr>],
      WorkerWakeEvent = False, WorkQueue = [], WorkQueueSize = 0, WorkQueueOverrun = 0,
      WorkerTerminator = False, LoggingThread = True,
      RepeatedMessageManagerInstance = RepeatedMessageManager_ctor, DbgView = []\<rparr>"

section \<open>Sink registration\<close>

lemma erase_first_named_subset:
  "set (erase_first_named n qs) \<subseteq> set qs"
  by (induction qs) auto

lemma erase_first_named_names:
  "distinct (map UniquePluginName qs) \<Longrightarrow>
   UniquePluginName ` set (erase_first_named n qs) = UniquePluginName ` set qs - {n}"
  by (induction qs) (auto simp: image_iff)

lemma erase_first_named_distinct:
  "distinct (map UniquePluginName qs) \<Longrightarrow> distinct (map UniquePluginName (erase_first_named n qs))"
proof (induction qs)
  case Nil
  then show ?case by simp
next
  case (Cons q qs)
  have "UniquePluginName q \<notin> UniquePluginName ` set (erase_first_named n qs)"
    using Cons.prems erase_first_named_subset [of n qs] by auto
  with Cons show ?case by auto
qed

lemma erase_first_named_absent:
  "distinct (map UniquePluginName qs) \<Longrightarrow> registered_as n (erase_first_named n qs) = []"
  using erase_first_named_names [of qs n]
  by (auto simp: registered_as_def filter_empty_conv)

lemma AddPlugin_Some:
  assumes "unique_names plugins"
  shows "AddPlugin (Some p) plugins = p # erase_first_named (UniquePluginName p) plugins"
proof -
  have "registered_as (UniquePluginName p) (erase_first_named (UniquePluginName p) plugins) = []"
    using assms by (simp add: unique_names_def erase_first_named_absent)
  then have "p \<notin> set (erase_first_named (UniquePluginName p) plugins)"
    by (auto simp: registered_as_def filter_empty_conv)
  then show ?thesis
    by (simp add: AddPlugin_def RemovePlugin_def List.insert_def)
qed

lemma AddPlugin_unique_names:
  assumes "unique_names plugins"
  shows "unique_names (AddPlugin (Some p) plugins)"
proof -
  have "UniquePluginName p \<notin> UniquePluginName ` set (erase_first_named (UniquePluginName p) plugins)"
    using assms erase_first_named_names [of plugins "UniquePluginName p"]
    by (simp add: unique_names_def)
  then show ?thesis
    using assms erase_first_named_distinct [of plugins "UniquePluginName p"]
    by (simp add: AddPlugin_Some unique_names_def)
qed

lemma AddPlugin_registered:
  assumes "unique_names plugins"
  shows "registered_as (UniquePluginName p) (AddPlugin (Some p) plugins) = [p]"
  using assms erase_first_named_absent [of plugins "UniquePluginName p"]
  by (simp add: AddPlugin_Some) (simp add: registered_as_def unique_names_def)

lemma AddPlugin_twice:
  assumes "unique_names plugins" and "UniquePluginName q = UniquePluginName p"
  shows "AddPlugin (Some q) (AddPlugin (Some p) plugins) = AddPlugin (Some q) plugins"
  using assms AddPlugin_unique_names [OF assms(1), of p]
  by (simp add: AddPlugin_Some)

lemma AddPlugins_unique_names:
  "unique_names plugins \<Longrightarrow> unique_names (AddPlugins ps plugins)"
  unfolding AddPlugins_def
  by (induction ps arbitrary: plugins) (simp_all add: AddPlugin_unique_names)

lemma AddPlugins_snoc:
  "AddPlugins (ps @ [p]) plugins = AddPlugin (Some p) (AddPlugins ps plugins)"
  by (simp add: AddPlugins_def)

text \<open>
  Claim C8 (idempotent sink registration). In a registry whose sinks have pairwise different
  names (every registry built by \<open>AddPlugin\<close> from the empty one is such), adding
  \<open>N \<ge> 1\<close> sinks that all report the unique name \<open>n\<close> leaves exactly one
  sink registered under \<open>n\<close>, the one added last, and the whole run has the effect
  of the single \<open>AddPlugin\<close> of that last sink.
\<close>

theorem AddPlugin_idempotent_registration:
  assumes "unique_names plugins"
    and "ps \<noteq> []"
    and "\<forall>p \<in> set ps. UniquePluginName p = n"
  shows "registered_as n (AddPlugins ps plugins) = [last ps]
       \<and> AddPlugins ps plugins = AddPlugin (Some (last ps)) plugins
       \<and> unique_names (AddPlugins ps plugins)"
proof -
  have run: "AddPlugins ps plugins = AddPlugin (Some (last ps)) plugins"
    using assms(2,3)
  proof (induction ps rule: rev_nonempty_induct)
    case (single p)
    then show ?case by (simp add: AddPlugins_def)
  next
    case (snoc p ps)
    have "AddPlugins (ps @ [p]) plugins = AddPlugin (Some p) (AddPlugin (Some (last ps)) plugins)"
      using snoc by (simp add: AddPlugins_snoc)
    also have "\<dots> = AddPlugin (Some p) plugins"
      using snoc.prems snoc.hyps by (intro AddPlugin_twice [OF assms(1)]) simp
    finally show ?case by simp
  qed
  have "UniquePluginName (last ps) = n"
    using assms(2,3) by simp
  then have "registered_as n (AddPlugin (Some (last ps)) plugins) = [last ps]"
    using AddPlugin_registered [OF assms(1), of "last ps"] by simp
  with run show ?thesis
    using AddPlugin_unique_names [OF assms(1), of "last ps"] by simp
qed

theorem AddPlugin_idempotent_registration_witness:
  "unique_names [\<lparr>PluginAddress = 1, UniquePluginName = ''console''\<rparr>]
   \<and> map UniquePluginName
         [\<lparr>PluginAddress = 2, UniquePluginName = ''console''\<rparr>,
          \<lparr>PluginAddress = 3, UniquePluginName = ''console''\<rparr>] = [''console'', ''console'']
   \<and> registered_as ''console''
        (AddPlugins [\<lparr>PluginAddress = 2, UniquePluginName = ''console''\<rparr>,
                     \<lparr>PluginAddress = 3, UniquePluginName = ''console''\<rparr>]
           [\<lparr>PluginAddress = 1, UniquePluginName = ''console''\<rparr>])
       = [\<lparr>PluginAddress = 3, UniquePluginName = ''console''\<rparr>]"
proof -
  have h1: "unique_names [\<lparr>PluginAddress = 1, UniquePluginName = ''console''\<rparr>]"
    by (simp add: unique_names_def)
  have h2: "[\<lparr>PluginAddress = 2, UniquePluginName = ''console''\<rparr>,
             \<lparr>PluginAddress = 3, UniquePluginName = ''console''\<rparr>] \<noteq> []"
    by simp
  have h3: "\<forall>p \<in> set [\<lparr>PluginAddress = 2, UniquePluginName = ''console''\<rparr>,
                        \<lparr>PluginAddress = 3, UniquePluginName = ''console''\<rparr>].
              UniquePluginName p = ''console''"
    by simp
  from AddPlugin_idempotent_registration [OF h1 h2 h3, THEN conjunct1]
  show ?thesis using h1 by simp
qed

section \<open>What Write, the deferred aggregate and Poll change\<close>

lemma HandleMessage_busy:
  "BusyInWrite m \<Longrightarrow> HandleMessage cfg now s l t m = (Passed, m)"
  by (simp add: HandleMessage_def)

lemma Write_frame:
  "LoggingThread (Write cfg ts now s l t r opt w) = LoggingThread w"
  "Plugins (Write cfg ts now s l t r opt w) = Plugins w"
  "IsInDebugger (Write cfg ts now s l t r opt w) = IsInDebugger w"
  "WorkerTerminator (Write cfg ts now s l t r opt w) = WorkerTerminator w"
  by (auto simp: Write_def Let_def WorkQueueAdd_def FlushDbgViewLogImmediately_def split: prod.splits)

lemma Write_manager:
  "RepeatedMessageManagerInstance (Write cfg ts now s l t r opt w)
     = snd (HandleMessage cfg now s l t (RepeatedMessageManagerInstance w))"
  by (auto simp: Write_def Let_def WorkQueueAdd_def FlushDbgViewLogImmediately_def split: prod.splits)

lemma Write_passed_ignore_limit:
  assumes "fst (HandleMessage cfg now s l t (RepeatedMessageManagerInstance w)) = Passed"
  shows "WorkQueue (Write cfg ts now s l t r DangerouslyIgnoreQueueLimit w)
           = WorkQueue w @ [QueuedLogMessage_ctor s l t now]"
    and "WorkQueueSize (Write cfg ts now s l t r DangerouslyIgnoreQueueLimit w) = WorkQueueSize w + 1"
    and "WorkQueueOverrun (Write cfg ts now s l t r DangerouslyIgnoreQueueLimit w) = WorkQueueOverrun w"
  using assms
  by (auto simp: Write_def Let_def WorkQueueAdd_def FlushDbgViewLogImmediately_def split: prod.splits)

lemma PrintDeferred_frame:
  "LoggingThread (PrintDeferredAggregateMessage cfg ts now rm w) = LoggingThread w"
  "Plugins (PrintDeferredAggregateMessage cfg ts now rm w) = Plugins w"
  "IsInDebugger (PrintDeferredAggregateMessage cfg ts now rm w) = IsInDebugger w"
  "WorkerTerminator (PrintDeferredAggregateMessage cfg ts now rm w) = WorkerTerminator w"
  by (simp_all add: PrintDeferredAggregateMessage_def Let_def Write_frame)

lemma PrintDeferred_manager:
  "RepeatedMessageManagerInstance (PrintDeferredAggregateMessage cfg ts now rm w)
     = (RepeatedMessageManagerInstance w)\<lparr>BusyInWrite := False\<rparr>"
  by (simp add: PrintDeferredAggregateMessage_def Let_def Write_manager HandleMessage_busy)

lemma PrintDeferred_queue:
  "WorkQueue (PrintDeferredAggregateMessage cfg ts now rm w) = WorkQueue w @ [SummaryRecord now rm]"
  "WorkQueueSize (PrintDeferredAggregateMessage cfg ts now rm w) = WorkQueueSize w + 1"
  "WorkQueueOverrun (PrintDeferredAggregateMessage cfg ts now rm w) = WorkQueueOverrun w"
  by (simp_all add: PrintDeferredAggregateMessage_def Let_def Write_passed_ignore_limit
        HandleMessage_busy SummaryRecord_def)

lemma fold_PrintDeferred_frame:
  "LoggingThread (fold (PrintDeferredAggregateMessage cfg ts now) rms w) = LoggingThread w"
  "Plugins (fold (PrintDeferredAggregateMessage cfg ts now) rms w) = Plugins w"
  "IsInDebugger (fold (PrintDeferredAggregateMessage cfg ts now) rms w) = IsInDebugger w"
  "WorkerTerminator (fold (PrintDeferredAggregateMessage cfg ts now) rms w) = WorkerTerminator w"
  by (induction rms arbitrary: w; simp add: PrintDeferred_frame)+

lemma fold_PrintDeferred_queue:
  "WorkQueue (fold (PrintDeferredAggregateMessage cfg ts now) rms w)
     = WorkQueue w @ map (SummaryRecord now) rms"
  "WorkQueueSize (fold (PrintDeferredAggregateMessage cfg ts now) rms w) = WorkQueueSize w + length rms"
  "WorkQueueOverrun (fold (PrintDeferredAggregateMessage cfg ts now) rms w) = WorkQueueOverrun w"
  by (induction rms arbitrary: w; simp add: PrintDeferred_queue)+

lemma fold_PrintDeferred_manager:
  "RecentMessageMap (RepeatedMessageManagerInstance (fold (PrintDeferredAggregateMessage cfg ts now) rms w))
     = RecentMessageMap (RepeatedMessageManagerInstance w)"
  "RepeatedMessageMap (RepeatedMessageManagerInstance (fold (PrintDeferredAggregateMessage cfg ts now) rms w))
     = RepeatedMessageMap (RepeatedMessageManagerInstance w)"
  "RepeatedMessageExceptionSet (RepeatedMessageManagerInstance (fold (PrintDeferredAggregateMessage cfg ts now) rms w))
     = RepeatedMessageExceptionSet (RepeatedMessageManagerInstance w)"
  "RepeatedMessageSubsystemExceptionSet (RepeatedMessageManagerInstance (fold (PrintDeferredAggregateMessage cfg ts now) rms w))
     = RepeatedMessageSubsystemExceptionSet (RepeatedMessageManagerInstance w)"
  by (induction rms arbitrary: w; simp add: PrintDeferred_manager)+

lemma Poll_frame:
  "LoggingThread (Poll cfg ts now w) = LoggingThread w"
  "Plugins (Poll cfg ts now w) = Plugins w"
  "IsInDebugger (Poll cfg ts now w) = IsInDebugger w"
  "WorkerTerminator (Poll cfg ts now w) = WorkerTerminator w"
  by (simp_all add: Poll_def Let_def fold_PrintDeferred_frame)

lemma Poll_queue:
  "WorkQueue (Poll cfg ts now w)
     = WorkQueue w @ map (SummaryRecord now)
         (fst (Poll_scan cfg now (RepeatedMessageMap (RepeatedMessageManagerInstance w))))"
  "WorkQueueSize (Poll cfg ts now w)
     = WorkQueueSize w
         + length (fst (Poll_scan cfg now (RepeatedMessageMap (RepeatedMessageManagerInstance w))))"
  "WorkQueueOverrun (Poll cfg ts now w) = WorkQueueOverrun w"
  by (simp_all add: Poll_def Let_def fold_PrintDeferred_queue)

lemma Poll_manager:
  "RecentMessageMap (RepeatedMessageManagerInstance (Poll cfg ts now w))
     = Poll_prune cfg (RecentMessageMap (RepeatedMessageManagerInstance w))"
  "RepeatedMessageMap (RepeatedMessageManagerInstance (Poll cfg ts now w))
     = snd (Poll_scan cfg now (RepeatedMessageMap (RepeatedMessageManagerInstance w)))"
  "RepeatedMessageExceptionSet (RepeatedMessageManagerInstance (Poll cfg ts now w))
     = RepeatedMessageExceptionSet (RepeatedMessageManagerInstance w)"
  "RepeatedMessageSubsystemExceptionSet (RepeatedMessageManagerInstance (Poll cfg ts now w))
     = RepeatedMessageSubsystemExceptionSet (RepeatedMessageManagerInstance w)"
  by (simp_all add: Poll_def Let_def fold_PrintDeferred_manager)

lemma ProcessQueuedMessages_frame:
  "LoggingThread (snd (ProcessQueuedMessages cfg ts now w)) = LoggingThread w"
  by (simp add: ProcessQueuedMessages_def Let_def Poll_frame)

lemma Stop_LoggingThread:
  "\<not> LoggingThread (snd (Stop cfg ts now w))"
  by (simp add: Stop_def ProcessQueuedMessages_frame)

section \<open>Flush\<close>

text \<open>
  Claim C7. \<open>Flush\<close> on a worker whose dispatcher thread is not running reports the
  violation (the debug break) and returns the worker as it received it: no sentinel is
  enqueued, no event is waited for. After \<open>Stop\<close> the thread is not running, so this
  is what \<open>Flush\<close> does then.
\<close>

theorem Flush_while_stopped:
  "(\<not> LoggingThread w \<longrightarrow> Flush now flushEvent w = (FlushDebugBreak, w))
   \<and> Flush now flushEvent (snd (Stop cfg GetTimestamp t w))
       = (FlushDebugBreak, snd (Stop cfg GetTimestamp t w))"
  by (simp add: Flush_def Stop_LoggingThread)

theorem Flush_while_stopped_witness:
  "\<not> LoggingThread (example_worker\<lparr>LoggingThread := False\<rparr>)
   \<and> Flush 5 (Some 7) (example_worker\<lparr>LoggingThread := False\<rparr>)
       = (FlushDebugBreak, example_worker\<lparr>LoggingThread := False\<rparr>)"
  using Flush_while_stopped [of "example_worker\<lparr>LoggingThread := False\<rparr>" 5 "Some 7"]
  by simp

lemma ProcessQueuedMessages_actions:
  assumes "WorkQueue w \<noteq> []"
  shows "fst (ProcessQueuedMessages cfg ts now w)
           = concat (map (DispatchMessage ts (Plugins w))
               (DispatchBatch (WorkQueueOverrun w) now (WorkQueue (Poll cfg ts now w))))"
  using assms by (simp add: ProcessQueuedMessages_def Let_def Poll_queue Poll_frame)

text \<open>
  Claim C10. With the dispatcher running, \<open>Flush\<close> appends its sentinel to the work
  queue and counts it in the size whatever the size was: the queue limit is not an input of
  \<open>Flush\<close>. The overrun counter keeps its value, and the next drain signals the
  sentinel's event.
\<close>

theorem Flush_ignores_queue_limit:
  assumes "LoggingThread w"
  shows "snd (Flush now flushEvent w)
           = w\<lparr>WorkQueue := WorkQueue w @
                   [\<lparr>SubsystemName = ''Logging'', MessageLogLevel = Info, Buffer = [],
                     Time = now, FlushEvent = flushEvent\<rparr>],
                WorkQueueSize := WorkQueueSize w + 1,
                WorkerWakeEvent := True\<rparr>
         \<and> WorkQueueOverrun (snd (Flush now flushEvent w)) = WorkQueueOverrun w
         \<and> (\<forall>flushHandle. flushEvent = Some flushHandle \<longrightarrow>
               SetEvent flushHandle
                 \<in> set (fst (ProcessQueuedMessages cfg GetTimestamp t (snd (Flush now flushEvent w)))))"
proof -
  let ?sentinel = "\<lparr>SubsystemName = ''Logging'', MessageLogLevel = Info, Buffer = [],
                     Time = now, FlushEvent = flushEvent\<rparr>"
  have eq: "snd (Flush now flushEvent w)
           = w\<lparr>WorkQueue := WorkQueue w @ [?sentinel],
                WorkQueueSize := WorkQueueSize w + 1, WorkerWakeEvent := True\<rparr>"
    using assms by (simp add: Flush_def WorkQueueAdd_def QueuedLogMessage_ctor_def)
  have q: "WorkQueue (snd (Flush now flushEvent w)) = WorkQueue w @ [?sentinel]"
    by (simp add: eq)
  have "SetEvent flushHandle
          \<in> set (fst (ProcessQueuedMessages cfg GetTimestamp t (snd (Flush now flushEvent w))))"
    if "flushEvent = Some flushHandle" for flushHandle
  proof -
    have "?sentinel \<in> set (DispatchBatch (WorkQueueOverrun (snd (Flush now flushEvent w))) t
             (WorkQueue (Poll cfg GetTimestamp t (snd (Flush now flushEvent w)))))"
      by (simp add: DispatchBatch_def Poll_queue q)
    moreover have "SetEvent flushHandle \<in> set (DispatchMessage GetTimestamp (Plugins (snd (Flush now flushEvent w))) ?sentinel)"
      using that by (simp add: DispatchMessage_def)
    ultimately show ?thesis
      using ProcessQueuedMessages_actions [of "snd (Flush now flushEvent w)" cfg GetTimestamp t]
      by (auto simp: q)
  qed
  then show ?thesis using eq by simp
qed

theorem Flush_ignores_queue_limit_witness:
  "LoggingThread (example_worker\<lparr>WorkQueue := [QueuedLogMessage_ctor ''App'' Info ''a'' 1,
                                              QueuedLogMessage_ctor ''App'' Info ''b'' 2],
                                WorkQueueSize := 2\<rparr>)
   \<and> WorkQueueLimit example_cfg
        \<le> WorkQueueSize (example_worker\<lparr>WorkQueue := [QueuedLogMessage_ctor ''App'' Info ''a'' 1,
                                              QueuedLogMessage_ctor ''App'' Info ''b'' 2],
                                WorkQueueSize := 2\<rparr>)
   \<and> WorkQueue (snd (Flush 5 (Some 7)
        (example_worker\<lparr>WorkQueue := [QueuedLogMessage_ctor ''App'' Info ''a'' 1,
                                       QueuedLogMessage_ctor ''App'' Info ''b'' 2],
                         WorkQueueSize := 2\<rparr>)))
     = [QueuedLogMessage_ctor ''App'' Info ''a'' 1, QueuedLogMessage_ctor ''App'' Info ''b'' 2,
        \<lparr>SubsystemName = ''Logging'', MessageLogLevel = Info, Buffer = [],
                     Time = 5, FlushEvent = Some 7\<rparr>]
   \<and> WorkQueueSize (snd (Flush 5 (Some 7)
        (example_worker\<lparr>WorkQueue := [QueuedLogMessage_ctor ''App'' Info ''a'' 1,
                                       QueuedLogMessage_ctor ''App'' Info ''b'' 2],
                         WorkQueueSize := 2\<rparr>))) = 3
   \<and> WorkQueueOverrun (snd (Flush 5 (Some 7)
        (example_worker\<lparr>WorkQueue := [QueuedLogMessage_ctor ''App'' Info ''a'' 1,
                                       QueuedLogMessage_ctor ''App'' Info ''b'' 2],
                         WorkQueueSize := 2\<rparr>))) = 0
   \<and> SetEvent 7 \<in> set (fst (ProcessQueuedMessages example_cfg (\<lambda>t. []) 9
        (snd (Flush 5 (Some 7)
           (example_worker\<lparr>WorkQueue := [QueuedLogMessage_ctor ''App'' Info ''a'' 1,
                                          QueuedLogMessage_ctor ''App'' Info ''b'' 2],
                            WorkQueueSize := 2\<rparr>)))))"
proof -
  let ?w = "example_worker\<lparr>WorkQueue := [QueuedLogMessage_ctor ''App'' Info ''a'' 1,
                                              QueuedLogMessage_ctor ''App'' Info ''b'' 2],
                                WorkQueueSize := 2\<rparr>"
  have running: "LoggingThread ?w"
    by (simp add: example_worker_def)
  have full: "WorkQueueLimit example_cfg \<le> WorkQueueSize ?w"
    by (simp add: example_cfg_def)
  note flush = Flush_ignores_queue_limit
    [where cfg = example_cfg and GetTimestamp = "\<lambda>t. []" and t = 9 and now = 5
       and flushEvent = "Some 7", OF running]
  have signalled: "SetEvent 7 \<in> set (fst (ProcessQueuedMessages example_cfg (\<lambda>t. []) 9
                     (snd (Flush 5 (Some 7) ?w))))"
    using flush by blast
  have state: "WorkQueue (snd (Flush 5 (Some 7) ?w))
       = [QueuedLogMessage_ctor ''App'' Info ''a'' 1, QueuedLogMessage_ctor ''App'' Info ''b'' 2,
          \<lparr>SubsystemName = ''Logging'', MessageLogLevel = Info, Buffer = [],
                     Time = 5, FlushEvent = Some 7\<rparr>]"
    "WorkQueueSize (snd (Flush 5 (Some 7) ?w)) = 3"
    "WorkQueueOverrun (snd (Flush 5 (Some 7) ?w)) = 0"
    using flush [THEN conjunct1] by (simp_all add: example_worker_def)
  show ?thesis
    using running full signalled state by simp
qed

section \<open>The subsystem exception set\<close>

lemma HandleMessage_exception_sets:
  "RepeatedMessageExceptionSet (snd (HandleMessage cfg now s l t m)) = RepeatedMessageExceptionSet m"
  "RepeatedMessageSubsystemExceptionSet (snd (HandleMessage cfg now s l t m))
     = RepeatedMessageSubsystemExceptionSet m"
  by (simp_all add: HandleMessage_def split: option.splits)

lemma HandleMessage_subsystem_exception:
  "GetHash cfg s \<in> RepeatedMessageSubsystemExceptionSet m
     \<Longrightarrow> HandleMessage cfg now s l t m = (Passed, m)"
  by (simp add: HandleMessage_def)

lemma manager_call_RemoveRepeatedMessageSubsytemException:
  "manager_call cfg ts (CallRemoveRepeatedMessageSubsytemException s) w = None"
  "manager_calls cfg ts (CallRemoveRepeatedMessageSubsytemException s # cs) w = w"
  by (simp_all add: RemoveRepeatedMessageSubsytemException_def)

text \<open>
  Claim C9, evaluated on the code. The claim says that after
  \<open>AddRepeatedMessageSubsystemException\<close> the call of
  \<open>RemoveRepeatedMessageSubsytemException\<close> for the same subsystem returns and leaves the
  hash in the subsystem set. After the add the hash is in the subsystem set, so \<open>find\<close>
  gives an iterator to it, and the source passes that iterator to
  \<open>RepeatedMessageExceptionSet.erase\<close>, the other set: the call has no defined result, and
  there is no state after it for later messages to be classified in. The sibling
  \<open>RemoveRepeatedMessageException\<close> finds, compares and erases in one set, and after
  \<open>AddRepeatedMessageException\<close> it takes the hash out of that set again.
\<close>

theorem RemoveRepeatedMessageSubsytemException_undefined:
  "GetHash cfg s \<in> RepeatedMessageSubsystemExceptionSet (AddRepeatedMessageSubsystemException cfg s m)
   \<and> RemoveRepeatedMessageSubsytemException cfg s (AddRepeatedMessageSubsystemException cfg s m)
       = None
   \<and> GetHash cfg s
       \<notin> RepeatedMessageExceptionSet
           (RemoveRepeatedMessageException cfg s (AddRepeatedMessageException cfg s m))"
  by (simp add: RemoveRepeatedMessageSubsytemException_def
        AddRepeatedMessageSubsystemException_def RemoveRepeatedMessageException_def
        AddRepeatedMessageException_def)

section \<open>The global level and the channels\<close>

lemma SetGlobalMinimumLogLevel_nodes:
  "map Level_node (ChannelNodeHead (SetGlobalMinimumLogLevel level c))
     = replicate (length (ChannelNodeHead c)) level"
  "map UserOverrodeMinimumOutputLevel (ChannelNodeHead (SetGlobalMinimumLogLevel level c))
     = map UserOverrodeMinimumOutputLevel (ChannelNodeHead c)"
  "map SubsystemName_node (ChannelNodeHead (SetGlobalMinimumLogLevel level c))
     = map SubsystemName_node (ChannelNodeHead c)"
  by (simp_all add: SetGlobalMinimumLogLevel_def map_replicate_const comp_def)

lemma RestoreChannelLogLevel_node_override:
  "UserOverrodeMinimumOutputLevel channelNode
     \<Longrightarrow> RestoreChannelLogLevel_node c channelNode = channelNode"
  by (simp add: RestoreChannelLogLevel_node_def)

text \<open>
  Claim C2, evaluated on the code. The claim says that a channel whose user-override flag is
  set keeps its level when the global level is set. The loop of \<open>SetGlobalMinimumLogLevel\<close>
  writes the level to every node and never reads the flag
  (\<open>SetGlobalMinimumLogLevel_nodes\<close>). A registry with one channel, \<open>Tracking\<close>, whose
  owner has set its level to \<open>Error\<close> through \<open>SetMinimumOutputLevelNoSave\<close>: the channel
  has the flag and the level \<open>Error\<close>; after \<open>SetGlobalMinimumLogLevel Trace\<close> the global
  level is \<open>Trace\<close> and the channel has the level \<open>Trace\<close>, its flag still set. On the same
  registry the restore path \<open>RestoreChannelLogLevel\<close>, which tests the flag so as not to
  undo calls to \<open>SetMinimumOutputLevelNoSave\<close>, leaves the channel at \<open>Error\<close>.
\<close>

theorem SetGlobalMinimumLogLevel_overwrites_override:
  "SetMinimumOutputLevelNoSave Error
     \<lparr>SubsystemName_node = ''Tracking'', Level_node = Debug,
      UserOverrodeMinimumOutputLevel = False\<rparr>
     = \<lparr>SubsystemName_node = ''Tracking'', Level_node = Error,
        UserOverrodeMinimumOutputLevel = True\<rparr>
   \<and> SetGlobalMinimumLogLevel Trace
        \<lparr>GlobalMinimumLogLevel = Debug, Plugin = None,
         ChannelNodeHead =
           [SetMinimumOutputLevelNoSave Error
              \<lparr>SubsystemName_node = ''Tracking'', Level_node = Debug,
               UserOverrodeMinimumOutputLevel = False\<rparr>]\<rparr>
     = \<lparr>GlobalMinimumLogLevel = Trace, Plugin = None,
        ChannelNodeHead =
          [\<lparr>SubsystemName_node = ''Tracking'', Level_node = Trace,
            UserOverrodeMinimumOutputLevel = True\<rparr>]\<rparr>
   \<and> Error \<noteq> Trace
   \<and> RestoreChannelLogLevel_node
        \<lparr>GlobalMinimumLogLevel = Trace, Plugin = None, ChannelNodeHead = []\<rparr>
        (SetMinimumOutputLevelNoSave Error
           \<lparr>SubsystemName_node = ''Tracking'', Level_node = Debug,
            UserOverrodeMinimumOutputLevel = False\<rparr>)
     = \<lparr>SubsystemName_node = ''Tracking'', Level_node = Error,
        UserOverrodeMinimumOutputLevel = True\<rparr>"
  by (simp add: SetGlobalMinimumLogLevel_def SetMinimumOutputLevelNoSave_def
        RestoreChannelLogLevel_node_def)

section \<open>Pruning of the recent-message map\<close>

lemma fold_delete_filter:
  "fold (\<lambda>it m. AList.delete (fst it) m) its m = filter (\<lambda>p. fst p \<notin> fst ` set its) m"
proof (induction its arbitrary: m)
  case Nil
  then show ?case by simp
next
  case (Cons it its)
  have "fold (\<lambda>it m. AList.delete (fst it) m) (it # its) m
          = filter (\<lambda>p. fst p \<notin> fst ` set its) (AList.delete (fst it) m)"
    by (simp add: Cons)
  also have "\<dots> = filter (\<lambda>p. fst p \<notin> fst ` set (it # its)) m"
    by (auto simp: AList.delete_eq intro: filter_cong)
  finally show ?case .
qed

lemma filter_take_keys:
  assumes "distinct (map fst m)"
  shows "filter (\<lambda>p. fst p \<notin> fst ` set (take n m)) m = drop n m"
proof -
  have d: "distinct (map fst (take n m) @ map fst (drop n m))"
    using assms by (simp flip: map_append)
  have "filter (\<lambda>p. fst p \<notin> fst ` set (take n m)) (take n m) = []"
    by (auto simp: filter_empty_conv)
  moreover have "filter (\<lambda>p. fst p \<notin> fst ` set (take n m)) (drop n m) = drop n m"
    using d by (auto simp: filter_id_conv)
  ultimately have "filter (\<lambda>p. fst p \<notin> fst ` set (take n m)) (take n m @ drop n m) = drop n m"
    by (simp only: filter_append) simp
  then show ?thesis by simp
qed

lemma Poll_prune_drop:
  assumes "distinct (map fst recent)" and "length recent > recentMessageCount cfg * 2"
  shows "Poll_prune cfg recent = drop (recentMessageCount cfg * 3) recent"
  using assms
  by (simp add: Poll_prune_def Let_def fold_delete_filter filter_take_keys)

lemma Poll_prune_small:
  "length recent \<le> recentMessageCount cfg * 2 \<Longrightarrow> Poll_prune cfg recent = recent"
  by (simp add: Poll_prune_def)

text \<open>
  Claim C3, evaluated on the code, with \<open>recentMessageCount = 1\<close>. A map of three
  never-repeating messages seen at times 10, 20 and 30 is emptied by one \<open>Poll\<close>: the
  entry seen last is erased with the others. A map of five such messages keeps two, the
  ones that come last in the iteration order (here the oldest two), which is more than the
  target capacity.
\<close>

theorem Poll_prune_erases_newest:
  "RecentMessageMap (RepeatedMessageManagerInstance
      (Poll example_cfg (\<lambda>t. []) 40
         (example_worker\<lparr>RepeatedMessageManagerInstance :=
            RepeatedMessageManager_ctor\<lparr>RecentMessageMap :=
              [(1, \<lparr>timeMs = 10\<rparr>), (2, \<lparr>timeMs = 20\<rparr>), (3, \<lparr>timeMs = 30\<rparr>)]\<rparr>\<rparr>))) = []
   \<and> RecentMessageMap (RepeatedMessageManagerInstance
      (Poll example_cfg (\<lambda>t. []) 60
         (example_worker\<lparr>RepeatedMessageManagerInstance :=
            RepeatedMessageManager_ctor\<lparr>RecentMessageMap :=
              [(5, \<lparr>timeMs = 50\<rparr>), (4, \<lparr>timeMs = 40\<rparr>), (3, \<lparr>timeMs = 30\<rparr>),
               (2, \<lparr>timeMs = 20\<rparr>), (1, \<lparr>timeMs = 10\<rparr>)]\<rparr>\<rparr>)))
       = [(2, \<lparr>timeMs = 20\<rparr>), (1, \<lparr>timeMs = 10\<rparr>)]
   \<and> recentMessageCount example_cfg = 1"
  by (simp add: Poll_manager Poll_prune_def example_cfg_def example_worker_def
        RepeatedMessageManager_ctor_def AList.delete_eq)

section \<open>The two maps share no hash\<close>

lemma map_of_Some_key: "map_of al k = Some v \<Longrightarrow> k \<in> fst ` set al"
  by (induction al) (auto split: if_splits)

lemma keys_update_present:
  "map_of al k = Some v \<Longrightarrow> fst ` set (AList.update k v' al) = fst ` set al"
  using map_of_Some_key [of al k v] by (auto simp: dom_update)

lemma keys_delete: "fst ` set (AList.delete k al) = fst ` set al - {k}"
  by (auto simp: AList.delete_eq)

lemma HandleMessage_keys:
  "fst ` set (RecentMessageMap (snd (HandleMessage cfg now s l t m)))
      \<inter> fst ` set (RepeatedMessageMap (snd (HandleMessage cfg now s l t m)))
     \<subseteq> fst ` set (RecentMessageMap m) \<inter> fst ` set (RepeatedMessageMap m)"
proof (cases "map_of (RepeatedMessageMap m) (GetHash cfg t)")
  case None
  then have absent: "GetHash cfg t \<notin> fst ` set (RepeatedMessageMap m)"
    by (simp add: map_of_eq_None_iff)
  show ?thesis
  proof (cases "map_of (RecentMessageMap m) (GetHash cfg t)")
    case None
    with \<open>map_of (RepeatedMessageMap m) (GetHash cfg t) = None\<close> absent show ?thesis
      by (auto simp: HandleMessage_def dom_update)
  next
    case (Some r)
    with \<open>map_of (RepeatedMessageMap m) (GetHash cfg t) = None\<close> show ?thesis
      by (auto simp: HandleMessage_def dom_update keys_delete)
  qed
next
  case (Some rm)
  then show ?thesis
    by (auto simp: HandleMessage_def keys_update_present)
qed

lemma HandleMessage_maps_disjoint:
  "maps_disjoint m \<Longrightarrow> maps_disjoint (snd (HandleMessage cfg now s l t m))"
  using HandleMessage_keys [of cfg now s l t m] by (auto simp: maps_disjoint_def)

lemma Poll_prune_keys:
  "fst ` set (Poll_prune cfg recent) \<subseteq> fst ` set recent"
  by (auto simp: Poll_prune_def Let_def fold_delete_filter)

lemma Poll_scan_keys:
  "fst ` set (snd (Poll_scan cfg now es)) \<subseteq> fst ` set es"
  by (induction es) auto

lemma Poll_maps_disjoint:
  assumes "maps_disjoint (RepeatedMessageManagerInstance w)"
  shows "maps_disjoint (RepeatedMessageManagerInstance (Poll cfg ts now w))"
  using assms Poll_prune_keys [of cfg "RecentMessageMap (RepeatedMessageManagerInstance w)"]
    Poll_scan_keys [of cfg now "RepeatedMessageMap (RepeatedMessageManagerInstance w)"]
  by (simp add: maps_disjoint_def Poll_manager) blast

lemma manager_call_maps_disjoint:
  assumes "maps_disjoint (RepeatedMessageManagerInstance w)"
    and "manager_call cfg ts c w = Some w'"
  shows "maps_disjoint (RepeatedMessageManagerInstance w')"
proof (cases c)
  case (CallHandleMessage now s l t)
  then show ?thesis using assms by (auto simp: HandleMessage_maps_disjoint)
next
  case (CallPoll now)
  then show ?thesis using assms by (auto simp: Poll_maps_disjoint)
qed (use assms in \<open>clarsimp simp: maps_disjoint_def AddRepeatedMessageException_def
        RemoveRepeatedMessageException_def AddRepeatedMessageSubsystemException_def
        RemoveRepeatedMessageSubsytemException_def\<close>)+

lemma manager_calls_maps_disjoint:
  "maps_disjoint (RepeatedMessageManagerInstance w)
     \<Longrightarrow> maps_disjoint (RepeatedMessageManagerInstance (manager_calls cfg ts cs w))"
proof (induction cs arbitrary: w)
  case Nil
  then show ?case by simp
next
  case (Cons c cs)
  show ?case
  proof (cases "manager_call cfg ts c w")
    case None
    then show ?thesis using Cons.prems by simp
  next
    case (Some w')
    then show ?thesis
      using Cons.IH [OF manager_call_maps_disjoint [OF Cons.prems Some]] by simp
  qed
qed

lemma maps_disjoint_ctor: "maps_disjoint RepeatedMessageManager_ctor"
  by (simp add: maps_disjoint_def RepeatedMessageManager_ctor_def)

lemma HandleMessage_promotes:
  assumes "\<not> BusyInWrite m"
    and "GetHash cfg t \<notin> RepeatedMessageExceptionSet m"
    and "GetHash cfg s \<notin> RepeatedMessageSubsystemExceptionSet m"
    and "map_of (RepeatedMessageMap m) (GetHash cfg t) = None"
    and "map_of (RecentMessageMap m) (GetHash cfg t) = Some r"
  shows "HandleMessage cfg now s l t m =
           (Passed,
            m\<lparr>RepeatedMessageMap :=
                 AList.update (GetHash cfg t) (RepeatedMessage_ctor s l t now now 0)
                   (RepeatedMessageMap m),
               RecentMessageMap := AList.delete (GetHash cfg t) (RecentMessageMap m)\<rparr>)"
  using assms by (simp add: HandleMessage_def)

text \<open>
  Claim C6. If no hash is a key of both the recent-message map and the repeated-message
  map, the same holds after any run of calls to the manager (\<open>HandleMessage\<close>, \<open>Poll\<close>,
  adding and removing exceptions), after a \<open>Write\<close> and after a dispatch cycle. The
  manager starts with both maps empty. A message whose hash is in the recent map only, and
  that no exception and no re-entrancy guard lets through, is promoted: after that one
  \<open>HandleMessage\<close> its hash is a key of the repeated map and no longer of the recent map.
\<close>

theorem maps_disjoint_preserved:
  assumes "maps_disjoint (RepeatedMessageManagerInstance w)"
  shows "maps_disjoint (RepeatedMessageManagerInstance (manager_calls cfg GetTimestamp cs w))
       \<and> maps_disjoint (RepeatedMessageManagerInstance
            (Write cfg GetTimestamp now s l t relogged opt w))
       \<and> maps_disjoint (RepeatedMessageManagerInstance
            (snd (ProcessQueuedMessages cfg GetTimestamp now w)))
       \<and> (\<not> BusyInWrite (RepeatedMessageManagerInstance w)
            \<and> GetHash cfg t \<notin> RepeatedMessageExceptionSet (RepeatedMessageManagerInstance w)
            \<and> GetHash cfg s \<notin> RepeatedMessageSubsystemExceptionSet (RepeatedMessageManagerInstance w)
            \<and> GetHash cfg t \<in> fst ` set (RecentMessageMap (RepeatedMessageManagerInstance w))
          \<longrightarrow> map_of (RepeatedMessageMap
                  (snd (HandleMessage cfg now s l t (RepeatedMessageManagerInstance w))))
                  (GetHash cfg t)
                = Some (RepeatedMessage_ctor s l t now now 0)
              \<and> map_of (RecentMessageMap
                  (snd (HandleMessage cfg now s l t (RepeatedMessageManagerInstance w))))
                  (GetHash cfg t)
                = None)"
proof -
  let ?m = "RepeatedMessageManagerInstance w"
  have promote:
    "map_of (RepeatedMessageMap (snd (HandleMessage cfg now s l t ?m))) (GetHash cfg t)
       = Some (RepeatedMessage_ctor s l t now now 0)
     \<and> map_of (RecentMessageMap (snd (HandleMessage cfg now s l t ?m))) (GetHash cfg t) = None"
    if guard: "\<not> BusyInWrite ?m" "GetHash cfg t \<notin> RepeatedMessageExceptionSet ?m"
        "GetHash cfg s \<notin> RepeatedMessageSubsystemExceptionSet ?m"
      and recent: "GetHash cfg t \<in> fst ` set (RecentMessageMap ?m)"
  proof -
    from recent obtain r where r: "map_of (RecentMessageMap ?m) (GetHash cfg t) = Some r"
      by (cases "map_of (RecentMessageMap ?m) (GetHash cfg t)") (auto simp: map_of_eq_None_iff)
    from recent assms have "GetHash cfg t \<notin> fst ` set (RepeatedMessageMap ?m)"
      by (auto simp: maps_disjoint_def)
    then have "map_of (RepeatedMessageMap ?m) (GetHash cfg t) = None"
      by (simp add: map_of_eq_None_iff)
    from HandleMessage_promotes [OF guard this r, of now l] show ?thesis
      by (simp add: update_conv' delete_conv')
  qed
  have "maps_disjoint (RepeatedMessageManagerInstance (snd (ProcessQueuedMessages cfg GetTimestamp now w)))"
    using Poll_maps_disjoint [OF assms, of cfg GetTimestamp now]
    by (simp add: ProcessQueuedMessages_def Let_def maps_disjoint_def)
  then show ?thesis
    using manager_calls_maps_disjoint [OF assms] HandleMessage_maps_disjoint [OF assms] promote
    by (simp add: Write_manager)
qed

theorem maps_disjoint_preserved_witness:
  "maps_disjoint (RepeatedMessageManagerInstance
      (example_worker\<lparr>RepeatedMessageManagerInstance :=
         RepeatedMessageManager_ctor\<lparr>RecentMessageMap :=
           [(GetHash example_cfg ''boom'', \<lparr>timeMs = 1\<rparr>)]\<rparr>\<rparr>))
   \<and> maps_disjoint (RepeatedMessageManagerInstance
        (manager_calls example_cfg (\<lambda>t. [])
           [CallHandleMessage 5 ''App'' Info ''boom'', CallPoll 6]
           (example_worker\<lparr>RepeatedMessageManagerInstance :=
              RepeatedMessageManager_ctor\<lparr>RecentMessageMap :=
                [(GetHash example_cfg ''boom'', \<lparr>timeMs = 1\<rparr>)]\<rparr>\<rparr>)))
   \<and> map_of (RepeatedMessageMap
        (snd (HandleMessage example_cfg 5 ''App'' Info ''boom''
           (RepeatedMessageManager_ctor\<lparr>RecentMessageMap :=
              [(GetHash example_cfg ''boom'', \<lparr>timeMs = 1\<rparr>)]\<rparr>))))
        (GetHash example_cfg ''boom'')
      = Some (RepeatedMessage_ctor ''App'' Info ''boom'' 5 5 0)
   \<and> map_of (RecentMessageMap
        (snd (HandleMessage example_cfg 5 ''App'' Info ''boom''
           (RepeatedMessageManager_ctor\<lparr>RecentMessageMap :=
              [(GetHash example_cfg ''boom'', \<lparr>timeMs = 1\<rparr>)]\<rparr>))))
        (GetHash example_cfg ''boom'')
      = None"
proof -
  let ?w = "example_worker\<lparr>RepeatedMessageManagerInstance :=
         RepeatedMessageManager_ctor\<lparr>RecentMessageMap :=
           [(GetHash example_cfg ''boom'', \<lparr>timeMs = 1\<rparr>)]\<rparr>\<rparr>"
  have inv: "maps_disjoint (RepeatedMessageManagerInstance ?w)"
    by (simp add: maps_disjoint_def RepeatedMessageManager_ctor_def)
  from maps_disjoint_preserved [OF inv, of example_cfg "\<lambda>t. []"
      "[CallHandleMessage 5 ''App'' Info ''boom'', CallPoll 6]" 5 "''App''" Info "''boom''"]
  show ?thesis using inv
    by (simp add: RepeatedMessageManager_ctor_def)
qed

section \<open>Poll: the scan of the repeated-message map\<close>

lemma Poll_scan_append:
  "Poll_scan cfg now (xs @ ys)
     = (fst (Poll_scan cfg now xs) @ fst (Poll_scan cfg now ys),
        snd (Poll_scan cfg now xs) @ snd (Poll_scan cfg now ys))"
  by (induction xs) auto

lemma Poll_scan_expired:
  assumes "GetLogMillisecondTimeDifference (lastTimeMs rm) now > maxDeferrableDetectionTimeMs cfg"
    and "aggregatedCount rm \<noteq> 0"
  shows "Poll_scan cfg now (before @ (h, rm) # after)
     = (fst (Poll_scan cfg now before) @ rm # fst (Poll_scan cfg now after),
        snd (Poll_scan cfg now before) @ snd (Poll_scan cfg now after))"
  using assms by (simp add: Poll_scan_append)

lemma Poll_scan_capped:
  assumes "\<not> GetLogMillisecondTimeDifference (lastTimeMs rm) now > maxDeferrableDetectionTimeMs cfg"
    and "aggregatedCount rm \<ge> maxDeferredMessages cfg"
  shows "Poll_scan cfg now (before @ (h, rm) # after)
     = (fst (Poll_scan cfg now before) @ rm # fst (Poll_scan cfg now after),
        snd (Poll_scan cfg now before)
          @ (h, rm\<lparr>printedCount := printedCount rm + aggregatedCount rm, aggregatedCount := 0\<rparr>)
          # snd (Poll_scan cfg now after))"
  using assms by (simp add: Poll_scan_append)

lemma map_of_Poll_scan_absent:
  "h \<notin> fst ` set es \<Longrightarrow> map_of (snd (Poll_scan cfg now es)) h = None"
  using Poll_scan_keys [of cfg now es] by (auto simp: map_of_eq_None_iff)

section \<open>The aggregation lifecycle\<close>

subsection \<open>One occurrence of a message that is already repeating\<close>

lemma update_split:
  "h \<notin> fst ` set before \<Longrightarrow> AList.update h v (before @ (h, rm) # after) = before @ (h, v) # after"
  by (induction before) auto

lemma map_of_split:
  "h \<notin> fst ` set before \<Longrightarrow> map_of (before @ (h, rm) # after) h = Some rm"
  by (induction before) auto

lemma HandleMessage_repeat_printed:
  assumes "\<not> BusyInWrite m"
    and "GetHash cfg t \<notin> RepeatedMessageExceptionSet m"
    and "GetHash cfg s \<notin> RepeatedMessageSubsystemExceptionSet m"
    and "RepeatedMessageMap m = before @ (GetHash cfg t, rm) # after"
    and "GetHash cfg t \<notin> fst ` set before"
    and "GetLogMillisecondTimeDifference (lastTimeMs rm) now < maxDeferrableDetectionTimeMs cfg"
    and "printedCount rm < printedRepeatCount cfg"
  shows "HandleMessage cfg now s l t m
           = (Passed,
              m\<lparr>RepeatedMessageMap :=
                  before @ (GetHash cfg t,
                            rm\<lparr>lastTimeMs := now, printedCount := printedCount rm + 1\<rparr>) # after\<rparr>)"
proof -
  have look: "map_of (RepeatedMessageMap m) (GetHash cfg t) = Some rm"
    by (simp only: assms(4) map_of_split [OF assms(5)])
  have upd: "AList.update (GetHash cfg t) v (RepeatedMessageMap m)
               = before @ (GetHash cfg t, v) # after" for v
    by (simp only: assms(4) update_split [OF assms(5)])
  show ?thesis
    using assms(1,2,3,6,7) by (simp add: HandleMessage_def look upd)
qed

lemma HandleMessage_repeat_aggregated:
  assumes "\<not> BusyInWrite m"
    and "GetHash cfg t \<notin> RepeatedMessageExceptionSet m"
    and "GetHash cfg s \<notin> RepeatedMessageSubsystemExceptionSet m"
    and "RepeatedMessageMap m = before @ (GetHash cfg t, rm) # after"
    and "GetHash cfg t \<notin> fst ` set before"
    and "GetLogMillisecondTimeDifference (lastTimeMs rm) now < maxDeferrableDetectionTimeMs cfg"
    and "\<not> printedCount rm < printedRepeatCount cfg"
  shows "HandleMessage cfg now s l t m
           = (Aggregated,
              m\<lparr>RepeatedMessageMap :=
                  before @ (GetHash cfg t,
                            rm\<lparr>lastTimeMs := now, aggregatedCount := aggregatedCount rm + 1,
                               stream := (if aggregatedCount rm + 1 \<ge> maxDeferredMessages cfg
                                          then t else stream rm)\<rparr>) # after\<rparr>)"
proof -
  have look: "map_of (RepeatedMessageMap m) (GetHash cfg t) = Some rm"
    by (simp only: assms(4) map_of_split [OF assms(5)])
  have upd: "AList.update (GetHash cfg t) v (RepeatedMessageMap m)
               = before @ (GetHash cfg t, v) # after" for v
    by (simp only: assms(4) update_split [OF assms(5)])
  show ?thesis
    using assms(1,2,3,6,7) by (simp add: HandleMessage_def look upd)
qed

subsection \<open>Runs of occurrences\<close>

lemma HandleMessages_append:
  "HandleMessages cfg (xs @ ys) m
     = (fst (HandleMessages cfg xs m) @ fst (HandleMessages cfg ys (snd (HandleMessages cfg xs m))),
        snd (HandleMessages cfg ys (snd (HandleMessages cfg xs m))))"
  by (induction xs arbitrary: m) simp_all

lemma last_seen_append: "last_seen t0 (xs @ ys) = last_seen (last_seen t0 xs) ys"
  by (induction xs arbitrary: t0) simp_all

lemma within_window_append:
  "within_window cfg t0 (xs @ ys)
     = (within_window cfg t0 xs \<and> within_window cfg (last_seen t0 xs) ys)"
  by (induction xs arbitrary: t0) auto

lemma HandleMessages_printed:
  assumes "\<not> BusyInWrite m"
    and "h \<notin> RepeatedMessageExceptionSet m"
    and "\<forall>c \<in> set cs. GetHash cfg (callText c) = h
           \<and> GetHash cfg (callSubsystem c) \<notin> RepeatedMessageSubsystemExceptionSet m"
    and "RepeatedMessageMap m = before @ (h, rm) # after"
    and "h \<notin> fst ` set before"
    and "within_window cfg (lastTimeMs rm) cs"
    and "printedCount rm + length cs \<le> printedRepeatCount cfg"
  shows "HandleMessages cfg cs m
           = (replicate (length cs) Passed,
              m\<lparr>RepeatedMessageMap :=
                  before @ (h, rm\<lparr>lastTimeMs := last_seen (lastTimeMs rm) cs,
                                  printedCount := printedCount rm + length cs\<rparr>) # after\<rparr>)"
  using assms
proof (induction cs arbitrary: m rm)
  case Nil
  then show ?case by simp
next
  case (Cons c cs)
  let ?rm1 = "rm\<lparr>lastTimeMs := callTime c, printedCount := printedCount rm + 1\<rparr>"
  let ?m1 = "m\<lparr>RepeatedMessageMap := before @ (h, ?rm1) # after\<rparr>"
  have hc: "GetHash cfg (callText c) = h"
    and sc: "GetHash cfg (callSubsystem c) \<notin> RepeatedMessageSubsystemExceptionSet m"
    using Cons.prems(3) by auto
  have step: "HandleMessage cfg (callTime c) (callSubsystem c) (callLevel c) (callText c) m
                = (Passed, ?m1)"
    using HandleMessage_repeat_printed [of m cfg "callText c" "callSubsystem c" before rm after
        "callTime c" "callLevel c"] Cons.prems hc sc
    by simp
  have rest: "HandleMessages cfg cs ?m1
           = (replicate (length cs) Passed,
              ?m1\<lparr>RepeatedMessageMap :=
                  before @ (h, ?rm1\<lparr>lastTimeMs := last_seen (lastTimeMs ?rm1) cs,
                                  printedCount := printedCount ?rm1 + length cs\<rparr>) # after\<rparr>)"
    using Cons.prems by (intro Cons.IH) auto
  show ?case
    using rest by (simp add: step)
qed

lemma HandleMessages_aggregated:
  assumes "\<not> BusyInWrite m"
    and "h \<notin> RepeatedMessageExceptionSet m"
    and "\<forall>c \<in> set cs. GetHash cfg (callText c) = h
           \<and> GetHash cfg (callSubsystem c) \<notin> RepeatedMessageSubsystemExceptionSet m"
    and "RepeatedMessageMap m = before @ (h, rm) # after"
    and "h \<notin> fst ` set before"
    and "within_window cfg (lastTimeMs rm) cs"
    and "printedRepeatCount cfg \<le> printedCount rm"
  shows "\<exists>captured. captured \<in> insert (stream rm) (callText ` set cs)
           \<and> HandleMessages cfg cs m
               = (replicate (length cs) Aggregated,
                  m\<lparr>RepeatedMessageMap :=
                      before @ (h, rm\<lparr>lastTimeMs := last_seen (lastTimeMs rm) cs,
                                      aggregatedCount := aggregatedCount rm + length cs,
                                      stream := captured\<rparr>) # after\<rparr>)"
  using assms
proof (induction cs arbitrary: m rm)
  case Nil
  then show ?case by (intro exI [of _ "stream rm"]) simp
next
  case (Cons c cs)
  let ?rm1 = "rm\<lparr>lastTimeMs := callTime c, aggregatedCount := aggregatedCount rm + 1,
                  stream := (if aggregatedCount rm + 1 \<ge> maxDeferredMessages cfg
                             then callText c else stream rm)\<rparr>"
  let ?m1 = "m\<lparr>RepeatedMessageMap := before @ (h, ?rm1) # after\<rparr>"
  have hc: "GetHash cfg (callText c) = h"
    and sc: "GetHash cfg (callSubsystem c) \<notin> RepeatedMessageSubsystemExceptionSet m"
    using Cons.prems(3) by auto
  have step: "HandleMessage cfg (callTime c) (callSubsystem c) (callLevel c) (callText c) m
                = (Aggregated, ?m1)"
    using HandleMessage_repeat_aggregated [of m cfg "callText c" "callSubsystem c" before rm after
        "callTime c" "callLevel c"] Cons.prems hc sc
    by simp
  have "\<exists>captured. captured \<in> insert (stream ?rm1) (callText ` set cs)
           \<and> HandleMessages cfg cs ?m1
               = (replicate (length cs) Aggregated,
                  ?m1\<lparr>RepeatedMessageMap :=
                      before @ (h, ?rm1\<lparr>lastTimeMs := last_seen (lastTimeMs ?rm1) cs,
                                      aggregatedCount := aggregatedCount ?rm1 + length cs,
                                      stream := captured\<rparr>) # after\<rparr>)"
    using Cons.prems by (intro Cons.IH) auto
  then obtain captured where cap: "captured \<in> insert (stream ?rm1) (callText ` set cs)"
    and rest: "HandleMessages cfg cs ?m1
               = (replicate (length cs) Aggregated,
                  ?m1\<lparr>RepeatedMessageMap :=
                      before @ (h, ?rm1\<lparr>lastTimeMs := last_seen (lastTimeMs ?rm1) cs,
                                      aggregatedCount := aggregatedCount ?rm1 + length cs,
                                      stream := captured\<rparr>) # after\<rparr>)"
    by blast
  have "captured \<in> insert (stream rm) (callText ` set (c # cs))"
    using cap by (auto split: if_splits)
  then show ?case
    using rest by (intro exI [of _ captured]) (simp add: step)
qed

text \<open>A run on an entry with any counts: the first \<open>printedRepeatCount - printedCount\<close>
  occurrences are printed, the others aggregated, and the text the entry ends with is given
  in closed form.\<close>

lemma update_absent:
  "map_of al k = None \<Longrightarrow> AList.update k v al = al @ [(k, v)]"
  by (induction al) (auto split: if_splits)

lemma HandleMessages_run:
  assumes "\<not> BusyInWrite m"
    and "h \<notin> RepeatedMessageExceptionSet m"
    and "\<forall>c \<in> set cs. GetHash cfg (callText c) = h
           \<and> GetHash cfg (callSubsystem c) \<notin> RepeatedMessageSubsystemExceptionSet m"
    and "RepeatedMessageMap m = before @ (h, rm) # after"
    and "h \<notin> fst ` set before"
    and "within_window cfg (lastTimeMs rm) cs"
  shows "HandleMessages cfg cs m
           = (replicate (min (length cs) (printedRepeatCount cfg - printedCount rm)) Passed
                @ replicate (length cs - (printedRepeatCount cfg - printedCount rm)) Aggregated,
              m\<lparr>RepeatedMessageMap :=
                  before @ (h, rm\<lparr>lastTimeMs := last_seen (lastTimeMs rm) cs,
                      printedCount := printedCount rm
                         + min (length cs) (printedRepeatCount cfg - printedCount rm),
                      aggregatedCount := aggregatedCount rm
                         + (length cs - (printedRepeatCount cfg - printedCount rm)),
                      stream :=
                        (if printedRepeatCount cfg - printedCount rm < length cs
                            \<and> maxDeferredMessages cfg
                                 \<le> aggregatedCount rm
                                     + (length cs - (printedRepeatCount cfg - printedCount rm))
                         then callText (last cs) else stream rm)\<rparr>) # after\<rparr>)"
  using assms
proof (induction cs arbitrary: m rm)
  case Nil
  then show ?case by simp
next
  case (Cons c cs)
  have hc: "GetHash cfg (callText c) = h"
    and sc: "GetHash cfg (callSubsystem c) \<notin> RepeatedMessageSubsystemExceptionSet m"
    using Cons.prems(3) by auto
  have win: "GetLogMillisecondTimeDifference (lastTimeMs rm) (callTime c)
               < maxDeferrableDetectionTimeMs cfg"
    and win': "within_window cfg (callTime c) cs"
    using Cons.prems(6) by simp_all
  show ?case
  proof (cases "printedCount rm < printedRepeatCount cfg")
    case True
    let ?rm1 = "rm\<lparr>lastTimeMs := callTime c, printedCount := printedCount rm + 1\<rparr>"
    let ?m1 = "m\<lparr>RepeatedMessageMap := before @ (h, ?rm1) # after\<rparr>"
    have step: "HandleMessage cfg (callTime c) (callSubsystem c) (callLevel c) (callText c) m
                  = (Passed, ?m1)"
      using HandleMessage_repeat_printed [of m cfg "callText c" "callSubsystem c" before rm after
          "callTime c" "callLevel c"] Cons.prems(1,2,4,5) hc sc win True
      by simp
    have rest: "HandleMessages cfg cs ?m1
           = (replicate (min (length cs) (printedRepeatCount cfg - printedCount ?rm1)) Passed
                @ replicate (length cs - (printedRepeatCount cfg - printedCount ?rm1)) Aggregated,
              ?m1\<lparr>RepeatedMessageMap :=
                  before @ (h, ?rm1\<lparr>lastTimeMs := last_seen (lastTimeMs ?rm1) cs,
                      printedCount := printedCount ?rm1
                         + min (length cs) (printedRepeatCount cfg - printedCount ?rm1),
                      aggregatedCount := aggregatedCount ?rm1
                         + (length cs - (printedRepeatCount cfg - printedCount ?rm1)),
                      stream :=
                        (if printedRepeatCount cfg - printedCount ?rm1 < length cs
                            \<and> maxDeferredMessages cfg
                                 \<le> aggregatedCount ?rm1
                                     + (length cs - (printedRepeatCount cfg - printedCount ?rm1))
                         then callText (last cs) else stream ?rm1)\<rparr>) # after\<rparr>)"
      using Cons.prems(1,2,3,5) win' by (intro Cons.IH) auto
    obtain p where p: "printedRepeatCount cfg - printedCount rm = Suc p"
      using True by (metis Suc_diff_Suc)
    then have p': "printedRepeatCount cfg - Suc (printedCount rm) = p"
      by simp
    have ne: "cs \<noteq> []" if "p < length cs"
      using that by auto
    show ?thesis
      using rest by (auto simp: step p p' ne)
  next
    case False
    let ?rm1 = "rm\<lparr>lastTimeMs := callTime c, aggregatedCount := aggregatedCount rm + 1,
                    stream := (if aggregatedCount rm + 1 \<ge> maxDeferredMessages cfg
                               then callText c else stream rm)\<rparr>"
    let ?m1 = "m\<lparr>RepeatedMessageMap := before @ (h, ?rm1) # after\<rparr>"
    have step: "HandleMessage cfg (callTime c) (callSubsystem c) (callLevel c) (callText c) m
                  = (Aggregated, ?m1)"
      using HandleMessage_repeat_aggregated [of m cfg "callText c" "callSubsystem c" before rm
          after "callTime c" "callLevel c"] Cons.prems(1,2,4,5) hc sc win False
      by simp
    have rest: "HandleMessages cfg cs ?m1
           = (replicate (min (length cs) (printedRepeatCount cfg - printedCount ?rm1)) Passed
                @ replicate (length cs - (printedRepeatCount cfg - printedCount ?rm1)) Aggregated,
              ?m1\<lparr>RepeatedMessageMap :=
                  before @ (h, ?rm1\<lparr>lastTimeMs := last_seen (lastTimeMs ?rm1) cs,
                      printedCount := printedCount ?rm1
                         + min (length cs) (printedRepeatCount cfg - printedCount ?rm1),
                      aggregatedCount := aggregatedCount ?rm1
                         + (length cs - (printedRepeatCount cfg - printedCount ?rm1)),
                      stream :=
                        (if printedRepeatCount cfg - printedCount ?rm1 < length cs
                            \<and> maxDeferredMessages cfg
                                 \<le> aggregatedCount ?rm1
                                     + (length cs - (printedRepeatCount cfg - printedCount ?rm1))
                         then callText (last cs) else stream ?rm1)\<rparr>) # after\<rparr>)"
      using Cons.prems(1,2,3,5) win' by (intro Cons.IH) auto
    have z: "printedRepeatCount cfg - printedCount rm = 0"
      using False by simp
    show ?thesis
      using rest by (auto simp: step z)
  qed
qed

subsection \<open>From promotion to the summary\<close>

text \<open>
  Claim C1 (aggregation lifecycle). Let \<open>h\<close> be the hash of an entry of the
  repeated-message map that nothing has been printed or aggregated for yet, and let
  \<open>printedRepeatCount + k\<close> messages of that hash arrive, each within the aggregation
  window of the occurrence before it, none let through by an exception or the re-entrancy
  guard. Then \<open>HandleMessage\<close> answers \<open>Passed\<close> for the first \<open>printedRepeatCount\<close> and
  \<open>Aggregated\<close> for the \<open>k\<close> others, and the entry ends with printed count
  \<open>printedRepeatCount\<close> and aggregated count \<open>k\<close>. A \<open>Poll\<close> after the window has
  expired, if \<open>k\<close> is not zero, queues exactly one summary for the entry, with count
  \<open>k\<close>, and removes the entry. A \<open>Poll\<close> before that, once \<open>k\<close> has reached
  \<open>maxDeferredMessages\<close>, queues the same summary, adds \<open>k\<close> to the printed count, sets
  the aggregated count to zero and keeps the entry.
\<close>

theorem aggregation_lifecycle:
  assumes "\<not> BusyInWrite (RepeatedMessageManagerInstance w)"
    and "h \<notin> RepeatedMessageExceptionSet (RepeatedMessageManagerInstance w)"
    and "\<forall>c \<in> set cs. GetHash cfg (callText c) = h
           \<and> GetHash cfg (callSubsystem c)
               \<notin> RepeatedMessageSubsystemExceptionSet (RepeatedMessageManagerInstance w)"
    and "RepeatedMessageMap (RepeatedMessageManagerInstance w) = before @ (h, rm) # after"
    and "distinct (map fst (RepeatedMessageMap (RepeatedMessageManagerInstance w)))"
    and "printedCount rm = 0"
    and "aggregatedCount rm = 0"
    and "within_window cfg (lastTimeMs rm) cs"
    and "length cs = printedRepeatCount cfg + k"
  shows "fst (HandleMessages cfg cs (RepeatedMessageManagerInstance w))
           = replicate (printedRepeatCount cfg) Passed @ replicate k Aggregated
       \<and> (\<exists>captured.
             captured \<in> insert (stream rm) (callText ` set cs)
           \<and> snd (HandleMessages cfg cs (RepeatedMessageManagerInstance w))
               = (RepeatedMessageManagerInstance w)
                   \<lparr>RepeatedMessageMap :=
                      before @ (h, rm\<lparr>lastTimeMs := last_seen (lastTimeMs rm) cs,
                                      printedCount := printedRepeatCount cfg,
                                      aggregatedCount := k,
                                      stream := captured\<rparr>) # after\<rparr>
           \<and> (k \<noteq> 0
                \<and> maxDeferrableDetectionTimeMs cfg
                     < GetLogMillisecondTimeDifference (last_seen (lastTimeMs rm) cs) now
               \<longrightarrow>
                 WorkQueue (Poll cfg GetTimestamp now
                     (w\<lparr>RepeatedMessageManagerInstance :=
                          snd (HandleMessages cfg cs (RepeatedMessageManagerInstance w))\<rparr>))
                   = WorkQueue w
                       @ map (SummaryRecord now) (fst (Poll_scan cfg now before))
                       @ [\<lparr>SubsystemName = subsystemName rm, MessageLogLevel = messageLogLevel rm,
                            Buffer = ''[Aggregated '' @ decimal k @ '' times] '' @ captured,
                            Time = now, FlushEvent = None\<rparr>]
                       @ map (SummaryRecord now) (fst (Poll_scan cfg now after))
                 \<and> RepeatedMessageMap (RepeatedMessageManagerInstance
                       (Poll cfg GetTimestamp now
                          (w\<lparr>RepeatedMessageManagerInstance :=
                               snd (HandleMessages cfg cs (RepeatedMessageManagerInstance w))\<rparr>)))
                   = snd (Poll_scan cfg now before) @ snd (Poll_scan cfg now after))
           \<and> (maxDeferredMessages cfg \<le> k
                \<and> \<not> maxDeferrableDetectionTimeMs cfg
                       < GetLogMillisecondTimeDifference (last_seen (lastTimeMs rm) cs) now
               \<longrightarrow>
                 WorkQueue (Poll cfg GetTimestamp now
                     (w\<lparr>RepeatedMessageManagerInstance :=
                          snd (HandleMessages cfg cs (RepeatedMessageManagerInstance w))\<rparr>))
                   = WorkQueue w
                       @ map (SummaryRecord now) (fst (Poll_scan cfg now before))
                       @ [\<lparr>SubsystemName = subsystemName rm, MessageLogLevel = messageLogLevel rm,
                            Buffer = ''[Aggregated '' @ decimal k @ '' times] '' @ captured,
                            Time = now, FlushEvent = None\<rparr>]
                       @ map (SummaryRecord now) (fst (Poll_scan cfg now after))
                 \<and> RepeatedMessageMap (RepeatedMessageManagerInstance
                       (Poll cfg GetTimestamp now
                          (w\<lparr>RepeatedMessageManagerInstance :=
                               snd (HandleMessages cfg cs (RepeatedMessageManagerInstance w))\<rparr>)))
                   = snd (Poll_scan cfg now before)
                       @ (h, rm\<lparr>lastTimeMs := last_seen (lastTimeMs rm) cs,
                                printedCount := printedRepeatCount cfg + k,
                                aggregatedCount := 0,
                                stream := captured\<rparr>)
                       # snd (Poll_scan cfg now after)))"
proof -
  let ?m = "RepeatedMessageManagerInstance w"
  let ?R = "printedRepeatCount cfg"
  let ?xs = "take ?R cs"
  let ?ys = "drop ?R cs"
  let ?rm1 = "rm\<lparr>lastTimeMs := last_seen (lastTimeMs rm) ?xs, printedCount := printedCount rm + length ?xs\<rparr>"
  let ?m1 = "?m\<lparr>RepeatedMessageMap := before @ (h, ?rm1) # after\<rparr>"
  have len: "length ?xs = ?R" "length ?ys = k"
    using assms(9) by simp_all
  have fresh: "h \<notin> fst ` set before" "h \<notin> fst ` set after"
    using assms(5) by (auto simp: assms(4))
  have calls_xs: "\<forall>c \<in> set ?xs. GetHash cfg (callText c) = h
           \<and> GetHash cfg (callSubsystem c) \<notin> RepeatedMessageSubsystemExceptionSet ?m"
    using assms(3) by (meson in_set_takeD)
  have calls_ys: "\<forall>c \<in> set ?ys. GetHash cfg (callText c) = h
           \<and> GetHash cfg (callSubsystem c) \<notin> RepeatedMessageSubsystemExceptionSet ?m1"
    using assms(3) by (auto dest: in_set_dropD)
  have win: "within_window cfg (lastTimeMs rm) ?xs"
    "within_window cfg (last_seen (lastTimeMs rm) ?xs) ?ys"
    using assms(8) within_window_append [of cfg "lastTimeMs rm" ?xs ?ys] by simp_all
  have first: "HandleMessages cfg ?xs ?m = (replicate (length ?xs) Passed, ?m1)"
    using assms(1,2,6) calls_xs fresh(1) win(1) len(1)
    by (intro HandleMessages_printed [OF _ _ _ assms(4)]) simp_all
  have "\<exists>captured. captured \<in> insert (stream ?rm1) (callText ` set ?ys)
           \<and> HandleMessages cfg ?ys ?m1
               = (replicate (length ?ys) Aggregated,
                  ?m1\<lparr>RepeatedMessageMap :=
                      before @ (h, ?rm1\<lparr>lastTimeMs := last_seen (lastTimeMs ?rm1) ?ys,
                                      aggregatedCount := aggregatedCount ?rm1 + length ?ys,
                                      stream := captured\<rparr>) # after\<rparr>)"
    using assms(1,2) calls_ys fresh(1) win(2) len(1)
    by (intro HandleMessages_aggregated) simp_all
  then obtain captured where cap: "captured \<in> insert (stream ?rm1) (callText ` set ?ys)"
    and second: "HandleMessages cfg ?ys ?m1
               = (replicate (length ?ys) Aggregated,
                  ?m1\<lparr>RepeatedMessageMap :=
                      before @ (h, ?rm1\<lparr>lastTimeMs := last_seen (lastTimeMs ?rm1) ?ys,
                                      aggregatedCount := aggregatedCount ?rm1 + length ?ys,
                                      stream := captured\<rparr>) # after\<rparr>)"
    by blast
  let ?rm2 = "rm\<lparr>lastTimeMs := last_seen (lastTimeMs rm) cs, printedCount := ?R,
                  aggregatedCount := k, stream := captured\<rparr>"
  have seen: "last_seen (last_seen (lastTimeMs rm) ?xs) ?ys = last_seen (lastTimeMs rm) cs"
    using last_seen_append [of "lastTimeMs rm" ?xs ?ys] by simp
  have whole: "HandleMessages cfg cs ?m
                 = (replicate ?R Passed @ replicate k Aggregated,
                    ?m\<lparr>RepeatedMessageMap := before @ (h, ?rm2) # after\<rparr>)"
    using HandleMessages_append [of cfg ?xs ?ys ?m] first second len seen assms(6,7)
    by simp
  have cap': "captured \<in> insert (stream rm) (callText ` set cs)"
    using cap by (auto dest: in_set_dropD)
  let ?w' = "w\<lparr>RepeatedMessageManagerInstance := snd (HandleMessages cfg cs ?m)\<rparr>"
  have map': "RepeatedMessageMap (RepeatedMessageManagerInstance ?w') = before @ (h, ?rm2) # after"
    by (simp add: whole)
  have rec: "SummaryRecord now ?rm2
           = \<lparr>SubsystemName = subsystemName rm, MessageLogLevel = messageLogLevel rm,
               Buffer = ''[Aggregated '' @ decimal k @ '' times] '' @ captured,
               Time = now, FlushEvent = None\<rparr>"
    by (simp add: SummaryRecord_def QueuedLogMessage_ctor_def AggregatePrefix_def)
  have expired: "WorkQueue (Poll cfg GetTimestamp now ?w')
                   = WorkQueue w
                       @ map (SummaryRecord now) (fst (Poll_scan cfg now before))
                       @ [\<lparr>SubsystemName = subsystemName rm, MessageLogLevel = messageLogLevel rm,
                            Buffer = ''[Aggregated '' @ decimal k @ '' times] '' @ captured,
                            Time = now, FlushEvent = None\<rparr>]
                       @ map (SummaryRecord now) (fst (Poll_scan cfg now after))
                 \<and> RepeatedMessageMap (RepeatedMessageManagerInstance (Poll cfg GetTimestamp now ?w'))
                   = snd (Poll_scan cfg now before) @ snd (Poll_scan cfg now after)"
    if "k \<noteq> 0" "maxDeferrableDetectionTimeMs cfg
                     < GetLogMillisecondTimeDifference (last_seen (lastTimeMs rm) cs) now"
  proof -
    have "Poll_scan cfg now (before @ (h, ?rm2) # after)
     = (fst (Poll_scan cfg now before) @ ?rm2 # fst (Poll_scan cfg now after),
        snd (Poll_scan cfg now before) @ snd (Poll_scan cfg now after))"
      using that by (intro Poll_scan_expired) simp_all
    then show ?thesis
      by (simp add: Poll_queue Poll_manager whole rec)
  qed
  have capped: "WorkQueue (Poll cfg GetTimestamp now ?w')
                   = WorkQueue w
                       @ map (SummaryRecord now) (fst (Poll_scan cfg now before))
                       @ [\<lparr>SubsystemName = subsystemName rm, MessageLogLevel = messageLogLevel rm,
                            Buffer = ''[Aggregated '' @ decimal k @ '' times] '' @ captured,
                            Time = now, FlushEvent = None\<rparr>]
                       @ map (SummaryRecord now) (fst (Poll_scan cfg now after))
                 \<and> RepeatedMessageMap (RepeatedMessageManagerInstance (Poll cfg GetTimestamp now ?w'))
                   = snd (Poll_scan cfg now before)
                       @ (h, rm\<lparr>lastTimeMs := last_seen (lastTimeMs rm) cs,
                                printedCount := printedRepeatCount cfg + k,
                                aggregatedCount := 0,
                                stream := captured\<rparr>)
                       # snd (Poll_scan cfg now after)"
    if "maxDeferredMessages cfg \<le> k" "\<not> maxDeferrableDetectionTimeMs cfg
                     < GetLogMillisecondTimeDifference (last_seen (lastTimeMs rm) cs) now"
  proof -
    have "Poll_scan cfg now (before @ (h, ?rm2) # after)
     = (fst (Poll_scan cfg now before) @ ?rm2 # fst (Poll_scan cfg now after),
        snd (Poll_scan cfg now before)
          @ (h, ?rm2\<lparr>printedCount := printedCount ?rm2 + aggregatedCount ?rm2, aggregatedCount := 0\<rparr>)
          # snd (Poll_scan cfg now after))"
      using that by (intro Poll_scan_capped) simp_all
    then show ?thesis
      by (simp add: Poll_queue Poll_manager whole rec)
  qed
  show ?thesis
  proof (intro conjI exI [of _ captured] impI)
    show "fst (HandleMessages cfg cs ?m) = replicate ?R Passed @ replicate k Aggregated"
      by (simp add: whole)
    show "captured \<in> insert (stream rm) (callText ` set cs)"
      by (rule cap')
    show "snd (HandleMessages cfg cs ?m) = ?m\<lparr>RepeatedMessageMap := before @ (h, ?rm2) # after\<rparr>"
      by (simp add: whole)
  qed (use expired capped in blast)+
qed

theorem aggregation_lifecycle_witness:
  "within_window example_cfg 5
     [\<lparr>callTime = 10, callSubsystem = ''App'', callLevel = Info, callText = ''boom''\<rparr>,
      \<lparr>callTime = 20, callSubsystem = ''App'', callLevel = Info, callText = ''boom''\<rparr>,
      \<lparr>callTime = 30, callSubsystem = ''App'', callLevel = Info, callText = ''boom''\<rparr>,
      \<lparr>callTime = 40, callSubsystem = ''App'', callLevel = Info, callText = ''boom''\<rparr>,
      \<lparr>callTime = 50, callSubsystem = ''App'', callLevel = Info, callText = ''boom''\<rparr>]
   \<and> fst (HandleMessages example_cfg
        [\<lparr>callTime = 10, callSubsystem = ''App'', callLevel = Info, callText = ''boom''\<rparr>,
         \<lparr>callTime = 20, callSubsystem = ''App'', callLevel = Info, callText = ''boom''\<rparr>,
         \<lparr>callTime = 30, callSubsystem = ''App'', callLevel = Info, callText = ''boom''\<rparr>,
         \<lparr>callTime = 40, callSubsystem = ''App'', callLevel = Info, callText = ''boom''\<rparr>,
         \<lparr>callTime = 50, callSubsystem = ''App'', callLevel = Info, callText = ''boom''\<rparr>]
        (RepeatedMessageManager_ctor\<lparr>RepeatedMessageMap :=
           [(GetHash example_cfg ''boom'', RepeatedMessage_ctor ''App'' Info ''boom'' 5 5 0)]\<rparr>))
       = [Passed, Passed, Aggregated, Aggregated, Aggregated]
   \<and> WorkQueue (Poll example_cfg (\<lambda>t. []) 5000
        (example_worker\<lparr>RepeatedMessageManagerInstance :=
           snd (HandleMessages example_cfg
             [\<lparr>callTime = 10, callSubsystem = ''App'', callLevel = Info, callText = ''boom''\<rparr>,
              \<lparr>callTime = 20, callSubsystem = ''App'', callLevel = Info, callText = ''boom''\<rparr>,
              \<lparr>callTime = 30, callSubsystem = ''App'', callLevel = Info, callText = ''boom''\<rparr>,
              \<lparr>callTime = 40, callSubsystem = ''App'', callLevel = Info, callText = ''boom''\<rparr>,
              \<lparr>callTime = 50, callSubsystem = ''App'', callLevel = Info, callText = ''boom''\<rparr>]
             (RepeatedMessageManager_ctor\<lparr>RepeatedMessageMap :=
                [(GetHash example_cfg ''boom'',
                  RepeatedMessage_ctor ''App'' Info ''boom'' 5 5 0)]\<rparr>))\<rparr>))
       = [\<lparr>SubsystemName = ''App'', MessageLogLevel = Info,
           Buffer = ''[Aggregated 3 times] boom'', Time = 5000, FlushEvent = None\<rparr>]
   \<and> map printedCount (map snd (RepeatedMessageMap (RepeatedMessageManagerInstance
        (Poll example_cfg (\<lambda>t. []) 60
        (example_worker\<lparr>RepeatedMessageManagerInstance :=
           snd (HandleMessages example_cfg
             [\<lparr>callTime = 10, callSubsystem = ''App'', callLevel = Info, callText = ''boom''\<rparr>,
              \<lparr>callTime = 20, callSubsystem = ''App'', callLevel = Info, callText = ''boom''\<rparr>,
              \<lparr>callTime = 30, callSubsystem = ''App'', callLevel = Info, callText = ''boom''\<rparr>,
              \<lparr>callTime = 40, callSubsystem = ''App'', callLevel = Info, callText = ''boom''\<rparr>,
              \<lparr>callTime = 50, callSubsystem = ''App'', callLevel = Info, callText = ''boom''\<rparr>]
             (RepeatedMessageManager_ctor\<lparr>RepeatedMessageMap :=
                [(GetHash example_cfg ''boom'',
                  RepeatedMessage_ctor ''App'' Info ''boom'' 5 5 0)]\<rparr>))\<rparr>))))) = [5]"
proof -
  let ?cs = "[\<lparr>callTime = 10, callSubsystem = ''App'', callLevel = Info, callText = ''boom''\<rparr>,
      \<lparr>callTime = 20, callSubsystem = ''App'', callLevel = Info, callText = ''boom''\<rparr>,
      \<lparr>callTime = 30, callSubsystem = ''App'', callLevel = Info, callText = ''boom''\<rparr>,
      \<lparr>callTime = 40, callSubsystem = ''App'', callLevel = Info, callText = ''boom''\<rparr>,
      \<lparr>callTime = 50, callSubsystem = ''App'', callLevel = Info, callText = ''boom''\<rparr>]"
  let ?rm = "RepeatedMessage_ctor ''App'' Info ''boom'' 5 5 0"
  let ?h = "GetHash example_cfg ''boom''"
  let ?m = "RepeatedMessageManager_ctor\<lparr>RepeatedMessageMap := [(?h, ?rm)]\<rparr>"
  let ?w = "example_worker\<lparr>RepeatedMessageManagerInstance := ?m\<rparr>"
  have a1: "\<not> BusyInWrite (RepeatedMessageManagerInstance ?w)"
    and a2: "?h \<notin> RepeatedMessageExceptionSet (RepeatedMessageManagerInstance ?w)"
    and a3: "\<forall>c \<in> set ?cs. GetHash example_cfg (callText c) = ?h
           \<and> GetHash example_cfg (callSubsystem c)
               \<notin> RepeatedMessageSubsystemExceptionSet (RepeatedMessageManagerInstance ?w)"
    and a4: "RepeatedMessageMap (RepeatedMessageManagerInstance ?w) = [] @ (?h, ?rm) # []"
    and a5: "distinct (map fst (RepeatedMessageMap (RepeatedMessageManagerInstance ?w)))"
    by (simp_all add: RepeatedMessageManager_ctor_def)
  have a6: "printedCount ?rm = 0" and a7: "aggregatedCount ?rm = 0"
    by (simp_all add: RepeatedMessage_ctor_def)
  have a8: "within_window example_cfg (lastTimeMs ?rm) ?cs"
    by (simp add: RepeatedMessage_ctor_def example_cfg_def GetLogMillisecondTimeDifference_def)
  have a9: "length ?cs = printedRepeatCount example_cfg + 3"
    by (simp add: example_cfg_def)
  have w: "RepeatedMessageManagerInstance ?w = ?m" "WorkQueue ?w = []"
    by (simp_all add: example_worker_def)
  have times: "lastTimeMs ?rm = 5" "last_seen 5 ?cs = 50" "stream ?rm = ''boom''"
      "subsystemName ?rm = ''App''" "messageLogLevel ?rm = Info"
    by (simp_all add: RepeatedMessage_ctor_def)
  have late: "maxDeferrableDetectionTimeMs example_cfg < GetLogMillisecondTimeDifference 50 5000"
    and early: "\<not> maxDeferrableDetectionTimeMs example_cfg < GetLogMillisecondTimeDifference 50 60"
    and cap: "maxDeferredMessages example_cfg \<le> 3"
    by (simp_all add: example_cfg_def GetLogMillisecondTimeDifference_def)
  have three: "decimal 3 = ''3''"
    by (simp add: decimal.simps digit_char_def)
  have rep: "replicate (printedRepeatCount example_cfg) Passed @ replicate 3 Aggregated
               = [Passed, Passed, Aggregated, Aggregated, Aggregated]"
    by (simp add: example_cfg_def eval_nat_numeral)
  note expiry = aggregation_lifecycle [where GetTimestamp = "\<lambda>t. []" and now = 5000,
         OF a1 a2 a3 a4 a5 a6 a7 a8 a9]
  note capped = aggregation_lifecycle [where GetTimestamp = "\<lambda>t. []" and now = 60,
         OF a1 a2 a3 a4 a5 a6 a7 a8 a9]
  have results: "fst (HandleMessages example_cfg ?cs ?m) = [Passed, Passed, Aggregated, Aggregated, Aggregated]"
    using expiry [THEN conjunct1] by (simp only: rep w)
  from expiry [THEN conjunct2] obtain captured
    where c: "captured \<in> insert (stream ?rm) (callText ` set ?cs)"
      and q: "WorkQueue (Poll example_cfg (\<lambda>t. []) 5000
                 (?w\<lparr>RepeatedMessageManagerInstance :=
                      snd (HandleMessages example_cfg ?cs (RepeatedMessageManagerInstance ?w))\<rparr>))
               = WorkQueue ?w
                   @ map (SummaryRecord 5000) (fst (Poll_scan example_cfg 5000 []))
                   @ [\<lparr>SubsystemName = subsystemName ?rm, MessageLogLevel = messageLogLevel ?rm,
                        Buffer = ''[Aggregated '' @ decimal 3 @ '' times] '' @ captured,
                        Time = 5000, FlushEvent = None\<rparr>]
                   @ map (SummaryRecord 5000) (fst (Poll_scan example_cfg 5000 []))"
    using late by (auto simp only: times)
  have "captured = ''boom''"
    using c by (simp add: times)
  with q have queue: "WorkQueue (Poll example_cfg (\<lambda>t. []) 5000
                 (example_worker\<lparr>RepeatedMessageManagerInstance :=
                      snd (HandleMessages example_cfg ?cs ?m)\<rparr>))
               = [\<lparr>SubsystemName = ''App'', MessageLogLevel = Info,
                   Buffer = ''[Aggregated 3 times] boom'', Time = 5000, FlushEvent = None\<rparr>]"
    by (simp add: w times three del: HandleMessages.simps)
  from capped [THEN conjunct2] obtain captured'
    where r: "RepeatedMessageMap (RepeatedMessageManagerInstance
                (Poll example_cfg (\<lambda>t. []) 60
                   (?w\<lparr>RepeatedMessageManagerInstance :=
                      snd (HandleMessages example_cfg ?cs (RepeatedMessageManagerInstance ?w))\<rparr>)))
               = snd (Poll_scan example_cfg 60 [])
                   @ (?h, ?rm\<lparr>lastTimeMs := last_seen (lastTimeMs ?rm) ?cs,
                                printedCount := printedRepeatCount example_cfg + 3,
                                aggregatedCount := 0,
                                stream := captured'\<rparr>)
                   # snd (Poll_scan example_cfg 60 [])"
    using early cap by (auto simp only: times)
  then have rolled: "map printedCount (map snd (RepeatedMessageMap (RepeatedMessageManagerInstance
                (Poll example_cfg (\<lambda>t. []) 60
                   (example_worker\<lparr>RepeatedMessageManagerInstance :=
                      snd (HandleMessages example_cfg ?cs ?m)\<rparr>))))) = [5]"
    by (simp add: w example_cfg_def del: HandleMessages.simps)
  show ?thesis
    using a8 results queue rolled by (simp only: times)
qed

section \<open>Poll: the final summary of an expired entry\<close>

text \<open>
  Claim C5, as the code has it. Let the repeated-message map hold the entry \<open>rm\<close> under
  the hash \<open>h\<close>, between the entries \<open>before\<close> and \<open>after\<close> it in the iteration
  order, and let a run \<open>cs\<close> of messages of that hash arrive (possibly none), each within
  the aggregation window of the occurrence before it, none let through by an exception or
  the re-entrancy guard. The first \<open>printedRepeatCount - printedCount rm\<close> of them are
  printed and the others aggregated; \<open>n\<close> is the aggregated count the entry ends with.
  \<open>HandleMessage\<close> replaces the text of the entry only by the text of an occurrence that
  brings the aggregated count to \<open>maxDeferredMessages\<close> or more: the text the entry ends
  with, \<open>captured\<close>, is the text of the last message of the run if that message was
  aggregated and \<open>n\<close> has reached \<open>maxDeferredMessages\<close>, and the text the entry had
  before the run otherwise. If at the time of \<open>Poll\<close> the window of the entry has expired
  and \<open>n\<close> is not zero, then \<open>Poll\<close> appends to the work queue the records of the
  entries before, then exactly one record for the entry, then the records of the entries
  after. The record has the subsystem and level of the entry and the body
  \<open>[Aggregated n times]\<close> followed by \<open>captured\<close>. The entry is gone from the map.
  The text an entry starts with is the text of the message that promoted it: a message whose
  hash is in the recent map only is entered at the end of the repeated map with its own
  text, the time of the call and zero counts.
\<close>

theorem Poll_final_summary:
  assumes "\<not> BusyInWrite (RepeatedMessageManagerInstance w)"
    and "h \<notin> RepeatedMessageExceptionSet (RepeatedMessageManagerInstance w)"
    and "\<forall>c \<in> set cs. GetHash cfg (callText c) = h
           \<and> GetHash cfg (callSubsystem c)
               \<notin> RepeatedMessageSubsystemExceptionSet (RepeatedMessageManagerInstance w)"
    and "RepeatedMessageMap (RepeatedMessageManagerInstance w) = before @ (h, rm) # after"
    and "distinct (map fst (RepeatedMessageMap (RepeatedMessageManagerInstance w)))"
    and "within_window cfg (lastTimeMs rm) cs"
  shows "(\<exists>n captured.
            n = aggregatedCount rm + (length cs - (printedRepeatCount cfg - printedCount rm))
          \<and> captured
              = (if printedRepeatCount cfg - printedCount rm < length cs
                    \<and> maxDeferredMessages cfg \<le> n
                 then callText (last cs) else stream rm)
          \<and> snd (HandleMessages cfg cs (RepeatedMessageManagerInstance w))
              = (RepeatedMessageManagerInstance w)
                  \<lparr>RepeatedMessageMap :=
                     before @ (h, rm\<lparr>lastTimeMs := last_seen (lastTimeMs rm) cs,
                                     printedCount := printedCount rm
                                        + min (length cs) (printedRepeatCount cfg - printedCount rm),
                                     aggregatedCount := n,
                                     stream := captured\<rparr>) # after\<rparr>
          \<and> (n \<noteq> 0
               \<and> maxDeferrableDetectionTimeMs cfg
                    < GetLogMillisecondTimeDifference (last_seen (lastTimeMs rm) cs) now
              \<longrightarrow>
                WorkQueue (Poll cfg GetTimestamp now
                    (w\<lparr>RepeatedMessageManagerInstance :=
                         snd (HandleMessages cfg cs (RepeatedMessageManagerInstance w))\<rparr>))
                  = WorkQueue w
                      @ map (SummaryRecord now) (fst (Poll_scan cfg now before))
                      @ [\<lparr>SubsystemName = subsystemName rm, MessageLogLevel = messageLogLevel rm,
                           Buffer = ''[Aggregated '' @ decimal n @ '' times] '' @ captured,
                           Time = now, FlushEvent = None\<rparr>]
                      @ map (SummaryRecord now) (fst (Poll_scan cfg now after))
                \<and> RepeatedMessageMap (RepeatedMessageManagerInstance
                      (Poll cfg GetTimestamp now
                         (w\<lparr>RepeatedMessageManagerInstance :=
                              snd (HandleMessages cfg cs (RepeatedMessageManagerInstance w))\<rparr>)))
                  = snd (Poll_scan cfg now before) @ snd (Poll_scan cfg now after)
                \<and> map_of (RepeatedMessageMap (RepeatedMessageManagerInstance
                      (Poll cfg GetTimestamp now
                         (w\<lparr>RepeatedMessageManagerInstance :=
                              snd (HandleMessages cfg cs (RepeatedMessageManagerInstance w))\<rparr>)))) h
                  = None))
       \<and> (\<not> BusyInWrite m0
            \<and> GetHash cfg t0 \<notin> RepeatedMessageExceptionSet m0
            \<and> GetHash cfg s0 \<notin> RepeatedMessageSubsystemExceptionSet m0
            \<and> map_of (RepeatedMessageMap m0) (GetHash cfg t0) = None
            \<and> map_of (RecentMessageMap m0) (GetHash cfg t0) \<noteq> None
           \<longrightarrow>
             RepeatedMessageMap (snd (HandleMessage cfg now0 s0 l0 t0 m0))
               = RepeatedMessageMap m0
                   @ [(GetHash cfg t0,
                       \<lparr>subsystemName = s0, messageLogLevel = l0, stream = t0,
                        initialTimeMs = now0, lastTimeMs = now0,
                        printedCount = 0, aggregatedCount = 0\<rparr>)])"
proof -
  let ?m = "RepeatedMessageManagerInstance w"
  let ?p = "printedRepeatCount cfg - printedCount rm"
  let ?n = "aggregatedCount rm + (length cs - ?p)"
  let ?captured = "if ?p < length cs \<and> maxDeferredMessages cfg \<le> ?n
                   then callText (last cs) else stream rm"
  let ?rm' = "rm\<lparr>lastTimeMs := last_seen (lastTimeMs rm) cs,
                  printedCount := printedCount rm + min (length cs) ?p,
                  aggregatedCount := ?n, stream := ?captured\<rparr>"
  let ?w' = "w\<lparr>RepeatedMessageManagerInstance := snd (HandleMessages cfg cs ?m)\<rparr>"
  have fresh: "h \<notin> fst ` set before" "h \<notin> fst ` set after"
    using assms(5) by (auto simp: assms(4))
  have run: "snd (HandleMessages cfg cs ?m)
               = ?m\<lparr>RepeatedMessageMap := before @ (h, ?rm') # after\<rparr>"
    using HandleMessages_run [OF assms(1,2,3,4) fresh(1) assms(6)] by simp
  have rec: "SummaryRecord now ?rm'
           = \<lparr>SubsystemName = subsystemName rm, MessageLogLevel = messageLogLevel rm,
               Buffer = ''[Aggregated '' @ decimal ?n @ '' times] '' @ ?captured,
               Time = now, FlushEvent = None\<rparr>"
    by (simp add: SummaryRecord_def QueuedLogMessage_ctor_def AggregatePrefix_def)
  have gone: "map_of (snd (Poll_scan cfg now before) @ snd (Poll_scan cfg now after)) h = None"
    using fresh by (simp add: map_of_Poll_scan_absent map_add_def)
  have expired: "WorkQueue (Poll cfg GetTimestamp now ?w')
                   = WorkQueue w
                       @ map (SummaryRecord now) (fst (Poll_scan cfg now before))
                       @ [\<lparr>SubsystemName = subsystemName rm, MessageLogLevel = messageLogLevel rm,
                            Buffer = ''[Aggregated '' @ decimal ?n @ '' times] '' @ ?captured,
                            Time = now, FlushEvent = None\<rparr>]
                       @ map (SummaryRecord now) (fst (Poll_scan cfg now after))
                 \<and> RepeatedMessageMap (RepeatedMessageManagerInstance (Poll cfg GetTimestamp now ?w'))
                   = snd (Poll_scan cfg now before) @ snd (Poll_scan cfg now after)
                 \<and> map_of (RepeatedMessageMap (RepeatedMessageManagerInstance
                             (Poll cfg GetTimestamp now ?w'))) h = None"
    if "?n \<noteq> 0" "maxDeferrableDetectionTimeMs cfg
                     < GetLogMillisecondTimeDifference (last_seen (lastTimeMs rm) cs) now"
  proof -
    have "Poll_scan cfg now (before @ (h, ?rm') # after)
     = (fst (Poll_scan cfg now before) @ ?rm' # fst (Poll_scan cfg now after),
        snd (Poll_scan cfg now before) @ snd (Poll_scan cfg now after))"
      using that by (intro Poll_scan_expired) simp_all
    then show ?thesis
      using gone by (simp add: Poll_queue Poll_manager run rec)
  qed
  have promoted: "RepeatedMessageMap (snd (HandleMessage cfg now0 s0 l0 t0 m0))
               = RepeatedMessageMap m0
                   @ [(GetHash cfg t0,
                       \<lparr>subsystemName = s0, messageLogLevel = l0, stream = t0,
                        initialTimeMs = now0, lastTimeMs = now0,
                        printedCount = 0, aggregatedCount = 0\<rparr>)]"
    if "\<not> BusyInWrite m0" "GetHash cfg t0 \<notin> RepeatedMessageExceptionSet m0"
      "GetHash cfg s0 \<notin> RepeatedMessageSubsystemExceptionSet m0"
      "map_of (RepeatedMessageMap m0) (GetHash cfg t0) = None"
      "map_of (RecentMessageMap m0) (GetHash cfg t0) \<noteq> None"
  proof -
    note recent = that
    obtain r where "map_of (RecentMessageMap m0) (GetHash cfg t0) = Some r"
      using recent(5) by blast
    from HandleMessage_promotes [OF recent(1,2,3,4) this]
    show ?thesis
      by (simp add: update_absent [OF recent(4)] RepeatedMessage_ctor_def)
  qed
  show ?thesis
  proof (intro conjI impI)
    show "\<exists>n captured.
            n = aggregatedCount rm + (length cs - (printedRepeatCount cfg - printedCount rm))
          \<and> captured
              = (if printedRepeatCount cfg - printedCount rm < length cs
                    \<and> maxDeferredMessages cfg \<le> n
                 then callText (last cs) else stream rm)
          \<and> snd (HandleMessages cfg cs (RepeatedMessageManagerInstance w))
              = (RepeatedMessageManagerInstance w)
                  \<lparr>RepeatedMessageMap :=
                     before @ (h, rm\<lparr>lastTimeMs := last_seen (lastTimeMs rm) cs,
                                     printedCount := printedCount rm
                                        + min (length cs) (printedRepeatCount cfg - printedCount rm),
                                     aggregatedCount := n,
                                     stream := captured\<rparr>) # after\<rparr>
          \<and> (n \<noteq> 0
               \<and> maxDeferrableDetectionTimeMs cfg
                    < GetLogMillisecondTimeDifference (last_seen (lastTimeMs rm) cs) now
              \<longrightarrow>
                WorkQueue (Poll cfg GetTimestamp now
                    (w\<lparr>RepeatedMessageManagerInstance :=
                         snd (HandleMessages cfg cs (RepeatedMessageManagerInstance w))\<rparr>))
                  = WorkQueue w
                      @ map (SummaryRecord now) (fst (Poll_scan cfg now before))
                      @ [\<lparr>SubsystemName = subsystemName rm, MessageLogLevel = messageLogLevel rm,
                           Buffer = ''[Aggregated '' @ decimal n @ '' times] '' @ captured,
                           Time = now, FlushEvent = None\<rparr>]
                      @ map (SummaryRecord now) (fst (Poll_scan cfg now after))
                \<and> RepeatedMessageMap (RepeatedMessageManagerInstance
                      (Poll cfg GetTimestamp now
                         (w\<lparr>RepeatedMessageManagerInstance :=
                              snd (HandleMessages cfg cs (RepeatedMessageManagerInstance w))\<rparr>)))
                  = snd (Poll_scan cfg now before) @ snd (Poll_scan cfg now after)
                \<and> map_of (RepeatedMessageMap (RepeatedMessageManagerInstance
                      (Poll cfg GetTimestamp now
                         (w\<lparr>RepeatedMessageManagerInstance :=
                              snd (HandleMessages cfg cs (RepeatedMessageManagerInstance w))\<rparr>)))) h
                  = None)"
    proof (intro exI [of _ ?n] exI [of _ ?captured] conjI impI)
      show "snd (HandleMessages cfg cs ?m)
              = ?m\<lparr>RepeatedMessageMap := before @ (h, ?rm') # after\<rparr>"
        by (rule run)
    qed (use expired in blast)+
  next
    assume "\<not> BusyInWrite m0
            \<and> GetHash cfg t0 \<notin> RepeatedMessageExceptionSet m0
            \<and> GetHash cfg s0 \<notin> RepeatedMessageSubsystemExceptionSet m0
            \<and> map_of (RepeatedMessageMap m0) (GetHash cfg t0) = None
            \<and> map_of (RecentMessageMap m0) (GetHash cfg t0) \<noteq> None"
    then show "RepeatedMessageMap (snd (HandleMessage cfg now0 s0 l0 t0 m0))
               = RepeatedMessageMap m0
                   @ [(GetHash cfg t0,
                       \<lparr>subsystemName = s0, messageLogLevel = l0, stream = t0,
                        initialTimeMs = now0, lastTimeMs = now0,
                        printedCount = 0, aggregatedCount = 0\<rparr>)]"
      using promoted by blast
  qed
qed

theorem Poll_final_summary_witness:
  "within_window (example_cfg\<lparr>messagePrefixLength := 4\<rparr>) 20
     [\<lparr>callTime = 30, callSubsystem = ''App'', callLevel = Info, callText = ''boom 3''\<rparr>,
      \<lparr>callTime = 40, callSubsystem = ''App'', callLevel = Info, callText = ''boom 4''\<rparr>,
      \<lparr>callTime = 50, callSubsystem = ''App'', callLevel = Info, callText = ''boom 5''\<rparr>,
      \<lparr>callTime = 60, callSubsystem = ''App'', callLevel = Info, callText = ''boom 6''\<rparr>,
      \<lparr>callTime = 70, callSubsystem = ''App'', callLevel = Info, callText = ''boom 7''\<rparr>]
   \<and> RepeatedMessageMap (snd (HandleMessage (example_cfg\<lparr>messagePrefixLength := 4\<rparr>)
        20 ''App'' Info ''boom 2''
        (RepeatedMessageManager_ctor\<lparr>RecentMessageMap :=
           [(GetHash (example_cfg\<lparr>messagePrefixLength := 4\<rparr>) ''boom 1'',
             \<lparr>timeMs = 10\<rparr>)]\<rparr>)))
       = [(GetHash (example_cfg\<lparr>messagePrefixLength := 4\<rparr>) ''boom 2'',
           \<lparr>subsystemName = ''App'', messageLogLevel = Info, stream = ''boom 2'',
            initialTimeMs = 20, lastTimeMs = 20, printedCount = 0, aggregatedCount = 0\<rparr>)]
   \<and> WorkQueue (Poll (example_cfg\<lparr>messagePrefixLength := 4\<rparr>) (\<lambda>t. []) 5000
        (example_worker\<lparr>RepeatedMessageManagerInstance :=
           snd (HandleMessages (example_cfg\<lparr>messagePrefixLength := 4\<rparr>)
             [\<lparr>callTime = 30, callSubsystem = ''App'', callLevel = Info, callText = ''boom 3''\<rparr>,
              \<lparr>callTime = 40, callSubsystem = ''App'', callLevel = Info, callText = ''boom 4''\<rparr>,
              \<lparr>callTime = 50, callSubsystem = ''App'', callLevel = Info, callText = ''boom 5''\<rparr>,
              \<lparr>callTime = 60, callSubsystem = ''App'', callLevel = Info, callText = ''boom 6''\<rparr>,
              \<lparr>callTime = 70, callSubsystem = ''App'', callLevel = Info, callText = ''boom 7''\<rparr>]
             (RepeatedMessageManager_ctor\<lparr>RepeatedMessageMap :=
                [(GetHash (example_cfg\<lparr>messagePrefixLength := 4\<rparr>) ''boom 2'',
                  \<lparr>subsystemName = ''App'', messageLogLevel = Info, stream = ''boom 2'',
                   initialTimeMs = 20, lastTimeMs = 20, printedCount = 0,
                   aggregatedCount = 0\<rparr>)]\<rparr>))\<rparr>))
       = [\<lparr>SubsystemName = ''App'', MessageLogLevel = Info,
           Buffer = ''[Aggregated 3 times] boom 7'', Time = 5000, FlushEvent = None\<rparr>]
   \<and> RepeatedMessageMap (RepeatedMessageManagerInstance
        (Poll (example_cfg\<lparr>messagePrefixLength := 4\<rparr>) (\<lambda>t. []) 5000
        (example_worker\<lparr>RepeatedMessageManagerInstance :=
           snd (HandleMessages (example_cfg\<lparr>messagePrefixLength := 4\<rparr>)
             [\<lparr>callTime = 30, callSubsystem = ''App'', callLevel = Info, callText = ''boom 3''\<rparr>,
              \<lparr>callTime = 40, callSubsystem = ''App'', callLevel = Info, callText = ''boom 4''\<rparr>,
              \<lparr>callTime = 50, callSubsystem = ''App'', callLevel = Info, callText = ''boom 5''\<rparr>,
              \<lparr>callTime = 60, callSubsystem = ''App'', callLevel = Info, callText = ''boom 6''\<rparr>,
              \<lparr>callTime = 70, callSubsystem = ''App'', callLevel = Info, callText = ''boom 7''\<rparr>]
             (RepeatedMessageManager_ctor\<lparr>RepeatedMessageMap :=
                [(GetHash (example_cfg\<lparr>messagePrefixLength := 4\<rparr>) ''boom 2'',
                  \<lparr>subsystemName = ''App'', messageLogLevel = Info, stream = ''boom 2'',
                   initialTimeMs = 20, lastTimeMs = 20, printedCount = 0,
                   aggregatedCount = 0\<rparr>)]\<rparr>))\<rparr>))) = []"
proof -
  let ?cfg = "example_cfg\<lparr>messagePrefixLength := 4\<rparr>"
  let ?cs = "[\<lparr>callTime = 30, callSubsystem = ''App'', callLevel = Info, callText = ''boom 3''\<rparr>,
      \<lparr>callTime = 40, callSubsystem = ''App'', callLevel = Info, callText = ''boom 4''\<rparr>,
      \<lparr>callTime = 50, callSubsystem = ''App'', callLevel = Info, callText = ''boom 5''\<rparr>,
      \<lparr>callTime = 60, callSubsystem = ''App'', callLevel = Info, callText = ''boom 6''\<rparr>,
      \<lparr>callTime = 70, callSubsystem = ''App'', callLevel = Info, callText = ''boom 7''\<rparr>]"
  let ?rm = "\<lparr>subsystemName = ''App'', messageLogLevel = Info, stream = ''boom 2'',
                   initialTimeMs = 20, lastTimeMs = 20, printedCount = 0,
                   aggregatedCount = 0\<rparr>"
  let ?h = "GetHash ?cfg ''boom 2''"
  let ?m = "RepeatedMessageManager_ctor\<lparr>RepeatedMessageMap := [(?h, ?rm)]\<rparr>"
  let ?w = "example_worker\<lparr>RepeatedMessageManagerInstance := ?m\<rparr>"
  let ?recent = "RepeatedMessageManager_ctor\<lparr>RecentMessageMap :=
               [(GetHash ?cfg ''boom 1'', \<lparr>timeMs = 10\<rparr>)]\<rparr>"
  have hash: "GetHash ?cfg ''boom 1'' = ?h" "GetHash ?cfg ''boom 3'' = ?h"
      "GetHash ?cfg ''boom 4'' = ?h" "GetHash ?cfg ''boom 5'' = ?h"
      "GetHash ?cfg ''boom 6'' = ?h" "GetHash ?cfg ''boom 7'' = ?h"
    by (simp_all add: GetHash_def example_cfg_def)
  have a1: "\<not> BusyInWrite (RepeatedMessageManagerInstance ?w)"
    and a2: "?h \<notin> RepeatedMessageExceptionSet (RepeatedMessageManagerInstance ?w)"
    and a3: "\<forall>c \<in> set ?cs. GetHash ?cfg (callText c) = ?h
           \<and> GetHash ?cfg (callSubsystem c)
               \<notin> RepeatedMessageSubsystemExceptionSet (RepeatedMessageManagerInstance ?w)"
    and a4: "RepeatedMessageMap (RepeatedMessageManagerInstance ?w) = [] @ (?h, ?rm) # []"
    and a5: "distinct (map fst (RepeatedMessageMap (RepeatedMessageManagerInstance ?w)))"
    by (simp_all add: RepeatedMessageManager_ctor_def hash)
  have window: "within_window ?cfg 20 ?cs"
    by (simp add: example_cfg_def GetLogMillisecondTimeDifference_def)
  then have a6: "within_window ?cfg (lastTimeMs ?rm) ?cs"
    by simp
  have b: "\<not> BusyInWrite ?recent
            \<and> GetHash ?cfg ''boom 2'' \<notin> RepeatedMessageExceptionSet ?recent
            \<and> GetHash ?cfg ''App'' \<notin> RepeatedMessageSubsystemExceptionSet ?recent
            \<and> map_of (RepeatedMessageMap ?recent) (GetHash ?cfg ''boom 2'') = None
            \<and> map_of (RecentMessageMap ?recent) (GetHash ?cfg ''boom 2'') \<noteq> None"
    by (simp add: RepeatedMessageManager_ctor_def hash)
  have w: "RepeatedMessageManagerInstance ?w = ?m" "WorkQueue ?w = []"
    by (simp_all add: example_worker_def)
  have late: "maxDeferrableDetectionTimeMs ?cfg < GetLogMillisecondTimeDifference 70 5000"
    by (simp add: example_cfg_def GetLogMillisecondTimeDifference_def)
  have three: "decimal 3 = ''3''"
    by (simp add: decimal.simps digit_char_def)
  note summary = Poll_final_summary [where GetTimestamp = "\<lambda>t. []" and now = 5000
      and ?m0.0 = ?recent and ?t0.0 = "''boom 2''" and ?s0.0 = "''App''" and ?l0.0 = Info
      and ?now0.0 = 20, OF a1 a2 a3 a4 a5 a6]
  have promoted: "RepeatedMessageMap (snd (HandleMessage ?cfg 20 ''App'' Info ''boom 2'' ?recent))
                    = [(?h, ?rm)]"
    using summary [THEN conjunct2] b by (simp add: RepeatedMessageManager_ctor_def)
  from summary [THEN conjunct1] obtain n captured
    where n: "n = aggregatedCount ?rm + (length ?cs - (printedRepeatCount ?cfg - printedCount ?rm))"
      and c: "captured = (if printedRepeatCount ?cfg - printedCount ?rm < length ?cs
                            \<and> maxDeferredMessages ?cfg \<le> n
                          then callText (last ?cs) else stream ?rm)"
      and q: "n \<noteq> 0
               \<and> maxDeferrableDetectionTimeMs ?cfg
                    < GetLogMillisecondTimeDifference (last_seen (lastTimeMs ?rm) ?cs) 5000
              \<longrightarrow>
                WorkQueue (Poll ?cfg (\<lambda>t. []) 5000
                    (?w\<lparr>RepeatedMessageManagerInstance :=
                         snd (HandleMessages ?cfg ?cs (RepeatedMessageManagerInstance ?w))\<rparr>))
                  = WorkQueue ?w
                      @ map (SummaryRecord 5000) (fst (Poll_scan ?cfg 5000 []))
                      @ [\<lparr>SubsystemName = subsystemName ?rm, MessageLogLevel = messageLogLevel ?rm,
                           Buffer = ''[Aggregated '' @ decimal n @ '' times] '' @ captured,
                           Time = 5000, FlushEvent = None\<rparr>]
                      @ map (SummaryRecord 5000) (fst (Poll_scan ?cfg 5000 []))
                \<and> RepeatedMessageMap (RepeatedMessageManagerInstance
                      (Poll ?cfg (\<lambda>t. []) 5000
                         (?w\<lparr>RepeatedMessageManagerInstance :=
                              snd (HandleMessages ?cfg ?cs (RepeatedMessageManagerInstance ?w))\<rparr>)))
                  = snd (Poll_scan ?cfg 5000 []) @ snd (Poll_scan ?cfg 5000 [])
                \<and> map_of (RepeatedMessageMap (RepeatedMessageManagerInstance
                      (Poll ?cfg (\<lambda>t. []) 5000
                         (?w\<lparr>RepeatedMessageManagerInstance :=
                              snd (HandleMessages ?cfg ?cs (RepeatedMessageManagerInstance ?w))\<rparr>)))) ?h
                  = None"
    by (elim exE conjE) (erule (2) that)
  have n3: "n = 3"
    using n by (simp add: example_cfg_def)
  have c7: "captured = ''boom 7''"
    using c by (simp add: n3 example_cfg_def)
  have queue: "WorkQueue (Poll ?cfg (\<lambda>t. []) 5000
                 (example_worker\<lparr>RepeatedMessageManagerInstance :=
                      snd (HandleMessages ?cfg ?cs ?m)\<rparr>))
               = [\<lparr>SubsystemName = ''App'', MessageLogLevel = Info,
                   Buffer = ''[Aggregated 3 times] boom 7'', Time = 5000, FlushEvent = None\<rparr>]"
    and empty: "RepeatedMessageMap (RepeatedMessageManagerInstance
                 (Poll ?cfg (\<lambda>t. []) 5000
                 (example_worker\<lparr>RepeatedMessageManagerInstance :=
                      snd (HandleMessages ?cfg ?cs ?m)\<rparr>))) = []"
    using q late by (simp_all add: w n3 c7 three del: HandleMessages.simps)
  show ?thesis
    using window promoted queue empty by blast
qed

text \<open>
  The claim as it is stated, the body being the most recent text of the repeat group, fails
  when the aggregated count stays below \<open>maxDeferredMessages\<close>. The hash is taken over the
  first four characters, \<open>printedRepeatCount\<close> is 2 and \<open>maxDeferredMessages\<close> is 3. The
  messages \<open>boom 1\<close> to \<open>boom 5\<close> arrive 10 ms apart on a new manager: the first is
  recorded as recent, the second promotes the hash with the text \<open>boom 2\<close>, the third and
  the fourth are printed and the fifth is aggregated. The entry has the aggregated count 1
  and still the text \<open>boom 2\<close>, and the \<open>Poll\<close> after the window has expired queues
  \<open>[Aggregated 1 times] boom 2\<close>: the text of the promoting message, not that of the
  latest one, \<open>boom 5\<close>.
\<close>

theorem Poll_final_summary_counterexample:
  "fst (HandleMessages (example_cfg\<lparr>messagePrefixLength := 4\<rparr>)
     [\<lparr>callTime = 10, callSubsystem = ''App'', callLevel = Info, callText = ''boom 1''\<rparr>,
      \<lparr>callTime = 20, callSubsystem = ''App'', callLevel = Info, callText = ''boom 2''\<rparr>,
      \<lparr>callTime = 30, callSubsystem = ''App'', callLevel = Info, callText = ''boom 3''\<rparr>,
      \<lparr>callTime = 40, callSubsystem = ''App'', callLevel = Info, callText = ''boom 4''\<rparr>,
      \<lparr>callTime = 50, callSubsystem = ''App'', callLevel = Info, callText = ''boom 5''\<rparr>]
     RepeatedMessageManager_ctor)
     = [Passed, Passed, Passed, Passed, Aggregated]
   \<and> map snd (RepeatedMessageMap (snd (HandleMessages (example_cfg\<lparr>messagePrefixLength := 4\<rparr>)
     [\<lparr>callTime = 10, callSubsystem = ''App'', callLevel = Info, callText = ''boom 1''\<rparr>,
      \<lparr>callTime = 20, callSubsystem = ''App'', callLevel = Info, callText = ''boom 2''\<rparr>,
      \<lparr>callTime = 30, callSubsystem = ''App'', callLevel = Info, callText = ''boom 3''\<rparr>,
      \<lparr>callTime = 40, callSubsystem = ''App'', callLevel = Info, callText = ''boom 4''\<rparr>,
      \<lparr>callTime = 50, callSubsystem = ''App'', callLevel = Info, callText = ''boom 5''\<rparr>]
     RepeatedMessageManager_ctor)))
     = [\<lparr>subsystemName = ''App'', messageLogLevel = Info, stream = ''boom 2'',
         initialTimeMs = 20, lastTimeMs = 50, printedCount = 2, aggregatedCount = 1\<rparr>]
   \<and> maxDeferrableDetectionTimeMs (example_cfg\<lparr>messagePrefixLength := 4\<rparr>)
        < GetLogMillisecondTimeDifference 50 5000
   \<and> WorkQueue (Poll (example_cfg\<lparr>messagePrefixLength := 4\<rparr>) (\<lambda>t. []) 5000
        (example_worker\<lparr>RepeatedMessageManagerInstance :=
           snd (HandleMessages (example_cfg\<lparr>messagePrefixLength := 4\<rparr>)
             [\<lparr>callTime = 10, callSubsystem = ''App'', callLevel = Info, callText = ''boom 1''\<rparr>,
              \<lparr>callTime = 20, callSubsystem = ''App'', callLevel = Info, callText = ''boom 2''\<rparr>,
              \<lparr>callTime = 30, callSubsystem = ''App'', callLevel = Info, callText = ''boom 3''\<rparr>,
              \<lparr>callTime = 40, callSubsystem = ''App'', callLevel = Info, callText = ''boom 4''\<rparr>,
              \<lparr>callTime = 50, callSubsystem = ''App'', callLevel = Info, callText = ''boom 5''\<rparr>]
             RepeatedMessageManager_ctor)\<rparr>))
       = [\<lparr>SubsystemName = ''App'', MessageLogLevel = Info,
           Buffer = ''[Aggregated 1 times] boom 2'', Time = 5000, FlushEvent = None\<rparr>]
   \<and> ''[Aggregated 1 times] boom 2'' \<noteq> ''[Aggregated 1 times] boom 5''"
proof -
  let ?cfg = "example_cfg\<lparr>messagePrefixLength := 4\<rparr>"
  let ?h = "GetHash ?cfg ''boom 2''"
  have hash: "GetHash ?cfg ''boom 1'' = ?h" "GetHash ?cfg ''boom 3'' = ?h"
      "GetHash ?cfg ''boom 4'' = ?h" "GetHash ?cfg ''boom 5'' = ?h"
    by (simp_all add: GetHash_def example_cfg_def)
  have one: "decimal (Suc 0) = ''1''"
    by (simp add: decimal.simps digit_char_def)
  have cfg: "maxDeferrableDetectionTimeMs ?cfg = 1000" "printedRepeatCount ?cfg = 2"
      "maxDeferredMessages ?cfg = 3"
    by (simp_all add: example_cfg_def)
  show ?thesis
    by (simp add: HandleMessage_def hash cfg RepeatedMessageManager_ctor_def
          RepeatedMessage_ctor_def GetLogMillisecondTimeDifference_def Poll_queue
          SummaryRecord_def QueuedLogMessage_ctor_def AggregatePrefix_def one
          example_worker_def)
qed

section \<open>Overrun accounting\<close>

subsection \<open>Write on the queue\<close>

lemma HandleResult_not_Aggregated: "Aggregated \<noteq> r \<longleftrightarrow> r = Passed"
  by (cases r) simp_all

lemma Write_aggregated:
  assumes "fst (HandleMessage cfg now s l t (RepeatedMessageManagerInstance w)) = Aggregated"
  shows "WorkQueue (Write cfg ts now s l t r opt w) = WorkQueue w"
    and "WorkQueueSize (Write cfg ts now s l t r opt w) = WorkQueueSize w"
    and "WorkQueueOverrun (Write cfg ts now s l t r opt w) = WorkQueueOverrun w"
  using assms by (auto simp: Write_def split: prod.splits)

lemma Write_passed_room:
  assumes "fst (HandleMessage cfg now s l t (RepeatedMessageManagerInstance w)) = Passed"
    and "WorkQueueSize w < WorkQueueLimit cfg"
  shows "WorkQueue (Write cfg ts now s l t r Default w)
           = WorkQueue w @ [QueuedLogMessage_ctor s l t now]"
    and "WorkQueueSize (Write cfg ts now s l t r Default w) = WorkQueueSize w + 1"
    and "WorkQueueOverrun (Write cfg ts now s l t r Default w) = WorkQueueOverrun w"
  using assms
  by (auto simp: Write_def Let_def WorkQueueAdd_def FlushDbgViewLogImmediately_def split: prod.splits)

lemma Write_passed_full:
  assumes "fst (HandleMessage cfg now s l t (RepeatedMessageManagerInstance w)) = Passed"
    and "WorkQueueLimit cfg \<le> WorkQueueSize w"
  shows "WorkQueue (Write cfg ts now s l t r Default w) = WorkQueue w"
    and "WorkQueueSize (Write cfg ts now s l t r Default w) = WorkQueueSize w"
    and "WorkQueueOverrun (Write cfg ts now s l t r Default w) = WorkQueueOverrun w + 1"
  using assms
  by (auto simp: Write_def Let_def WorkQueueAdd_def FlushDbgViewLogImmediately_def split: prod.splits)

lemma Writes_frame:
  "Plugins (Writes cfg ts opt cs w) = Plugins w"
  "LoggingThread (Writes cfg ts opt cs w) = LoggingThread w"
  by (induction cs arbitrary: w; simp add: Write_frame)+

lemma Writes_manager:
  "RepeatedMessageManagerInstance (Writes cfg ts opt cs w)
     = snd (HandleMessages cfg cs (RepeatedMessageManagerInstance w))"
  by (induction cs arbitrary: w) (simp_all add: Write_manager)

lemma Writes_default_passed:
  assumes "Aggregated \<notin> set (fst (HandleMessages cfg cs (RepeatedMessageManagerInstance w)))"
  shows "WorkQueue (Writes cfg ts Default cs w)
           = WorkQueue w @ map WriteCall_record (take (WorkQueueLimit cfg - WorkQueueSize w) cs)
       \<and> WorkQueueSize (Writes cfg ts Default cs w)
           = WorkQueueSize w + min (length cs) (WorkQueueLimit cfg - WorkQueueSize w)
       \<and> WorkQueueOverrun (Writes cfg ts Default cs w)
           = WorkQueueOverrun w + (length cs - (WorkQueueLimit cfg - WorkQueueSize w))"
  using assms
proof (induction cs arbitrary: w)
  case Nil
  then show ?case by simp
next
  case (Cons c cs)
  let ?w1 = "Write cfg ts (callTime c) (callSubsystem c) (callLevel c) (callText c)
               (callRelogged c) Default w"
  have passed: "fst (HandleMessage cfg (callTime c) (callSubsystem c) (callLevel c) (callText c)
                       (RepeatedMessageManagerInstance w)) = Passed"
    using Cons.prems by (simp add: HandleResult_not_Aggregated)
  have tail: "Aggregated \<notin> set (fst (HandleMessages cfg cs (RepeatedMessageManagerInstance ?w1)))"
    using Cons.prems by (simp add: Write_manager)
  note IH = Cons.IH [OF tail]
  show ?case
  proof (cases "WorkQueueSize w < WorkQueueLimit cfg")
    case True
    then have lim: "WorkQueueLimit cfg - WorkQueueSize w = Suc (WorkQueueLimit cfg - (WorkQueueSize w + 1))"
      by simp
    show ?thesis
      using IH True
      by (simp add: Write_passed_room [OF passed True] lim WriteCall_record_def
            del: HandleMessages.simps)
  next
    case False
    then have full: "WorkQueueLimit cfg \<le> WorkQueueSize w" by simp
    show ?thesis
      using IH full
      by (simp add: Write_passed_full [OF passed full] del: HandleMessages.simps)
  qed
qed

subsection \<open>A run of writes and the next drain\<close>

text \<open>
  Claim C4, as the code has it. \<open>Write\<close> asks the repeated-message manager first, and a
  record the manager classifies as \<open>Aggregated\<close> is neither queued nor counted as an
  overrun. For a queue limit of at least one and \<open>m \<ge> 1\<close>: when \<open>limit + m\<close> records,
  none of them classified as \<open>Aggregated\<close>, are written with the default option to a
  drained queue (empty, overrun counter zero), the first \<open>limit\<close> of them are queued in
  order, the overrun counter ends at \<open>m\<close>, and the next drain sets the overrun counter to
  zero and fans out a batch that starts with exactly one synthetic \<open>Error\<close> record of
  subsystem \<open>Logging\<close> reporting \<open>m\<close>, followed by the queued records and the summaries
  \<open>Poll\<close> added.
\<close>

theorem overrun_accounting:
  assumes "WorkQueue w = []"
    and "WorkQueueSize w = 0"
    and "WorkQueueOverrun w = 0"
    and "Aggregated \<notin> set (fst (HandleMessages cfg cs (RepeatedMessageManagerInstance w)))"
    and "length cs = WorkQueueLimit cfg + m"
    and "0 < WorkQueueLimit cfg"
    and "0 < m"
  shows "WorkQueue (Writes cfg GetTimestamp Default cs w)
           = map WriteCall_record (take (WorkQueueLimit cfg) cs)
       \<and> WorkQueueSize (Writes cfg GetTimestamp Default cs w) = WorkQueueLimit cfg
       \<and> WorkQueueOverrun (Writes cfg GetTimestamp Default cs w) = m
       \<and> WorkQueueOverrun
            (snd (ProcessQueuedMessages cfg GetTimestamp now
                    (Writes cfg GetTimestamp Default cs w))) = 0
       \<and> fst (ProcessQueuedMessages cfg GetTimestamp now (Writes cfg GetTimestamp Default cs w))
           = concat (map (DispatchMessage GetTimestamp (Plugins w))
               (\<lparr>SubsystemName = ''Logging'', MessageLogLevel = Error,
                  Buffer = ''Lost '' @ decimal m
                    @ '' log messages due to queue overrun; try to reduce the amount of logging'',
                  Time = now, FlushEvent = None\<rparr>
                # map WriteCall_record (take (WorkQueueLimit cfg) cs)
                @ map (SummaryRecord now)
                    (fst (Poll_scan cfg now
                       (RepeatedMessageMap
                          (RepeatedMessageManagerInstance
                             (Writes cfg GetTimestamp Default cs w)))))))"
proof -
  let ?w' = "Writes cfg GetTimestamp Default cs w"
  note run = Writes_default_passed [OF assms(4), of GetTimestamp]
  have queue: "WorkQueue ?w' = map WriteCall_record (take (WorkQueueLimit cfg) cs)"
    using run by (simp add: assms(1,2))
  have size: "WorkQueueSize ?w' = WorkQueueLimit cfg"
    using run by (simp add: assms(2,5))
  have overrun: "WorkQueueOverrun ?w' = m"
    using run by (simp add: assms(2,3,5))
  have nonempty: "WorkQueue ?w' \<noteq> []"
    using assms(5,6) by (auto simp: queue)
  have reset: "WorkQueueOverrun (snd (ProcessQueuedMessages cfg GetTimestamp now ?w')) = 0"
    by (simp add: ProcessQueuedMessages_def Let_def)
  have lost: "LostMessage m now
                = \<lparr>SubsystemName = ''Logging'', MessageLogLevel = Error,
                  Buffer = ''Lost '' @ decimal m
                    @ '' log messages due to queue overrun; try to reduce the amount of logging'',
                  Time = now, FlushEvent = None\<rparr>"
    by (simp add: LostMessage_def QueuedLogMessage_ctor_def)
  have "fst (ProcessQueuedMessages cfg GetTimestamp now ?w')
           = concat (map (DispatchMessage GetTimestamp (Plugins ?w'))
               (DispatchBatch (WorkQueueOverrun ?w') now (WorkQueue (Poll cfg GetTimestamp now ?w'))))"
    by (rule ProcessQueuedMessages_actions [OF nonempty])
  also have "DispatchBatch (WorkQueueOverrun ?w') now (WorkQueue (Poll cfg GetTimestamp now ?w'))
           = LostMessage m now # WorkQueue (Poll cfg GetTimestamp now ?w')"
    using assms(7) by (simp add: DispatchBatch_def overrun)
  finally have actions: "fst (ProcessQueuedMessages cfg GetTimestamp now ?w')
           = concat (map (DispatchMessage GetTimestamp (Plugins w))
               (LostMessage m now # WorkQueue (Poll cfg GetTimestamp now ?w')))"
    by (simp only: Writes_frame)
  show ?thesis
    unfolding actions lost Poll_queue queue
    using queue size overrun reset by simp
qed

text \<open>
  The claim as it is stated fails on records the manager aggregates. With a queue limit of 4
  and \<open>printedRepeatCount = 2\<close>, five writes of the same text to a drained queue are
  \<open>limit + 1\<close> records: four are queued, the fifth is classified \<open>Aggregated\<close>, the overrun
  counter stays at zero, and the drain fans out the four records and no synthetic record.
\<close>

theorem overrun_accounting_counterexample:
  "length
     [\<lparr>callTime = 10, callSubsystem = ''App'', callLevel = Info, callText = ''boom'', callRelogged = False\<rparr>,
      \<lparr>callTime = 20, callSubsystem = ''App'', callLevel = Info, callText = ''boom'', callRelogged = False\<rparr>,
      \<lparr>callTime = 30, callSubsystem = ''App'', callLevel = Info, callText = ''boom'', callRelogged = False\<rparr>,
      \<lparr>callTime = 40, callSubsystem = ''App'', callLevel = Info, callText = ''boom'', callRelogged = False\<rparr>,
      \<lparr>callTime = 50, callSubsystem = ''App'', callLevel = Info, callText = ''boom'', callRelogged = False\<rparr>]
     = WorkQueueLimit (example_cfg\<lparr>WorkQueueLimit := 4\<rparr>) + 1
   \<and> WorkQueue example_worker = [] \<and> WorkQueueOverrun example_worker = 0
   \<and> WorkQueueOverrun
       (Writes (example_cfg\<lparr>WorkQueueLimit := 4\<rparr>) (\<lambda>t. []) Default
          [\<lparr>callTime = 10, callSubsystem = ''App'', callLevel = Info, callText = ''boom'', callRelogged = False\<rparr>,
           \<lparr>callTime = 20, callSubsystem = ''App'', callLevel = Info, callText = ''boom'', callRelogged = False\<rparr>,
           \<lparr>callTime = 30, callSubsystem = ''App'', callLevel = Info, callText = ''boom'', callRelogged = False\<rparr>,
           \<lparr>callTime = 40, callSubsystem = ''App'', callLevel = Info, callText = ''boom'', callRelogged = False\<rparr>,
           \<lparr>callTime = 50, callSubsystem = ''App'', callLevel = Info, callText = ''boom'', callRelogged = False\<rparr>]
          example_worker) = 0
   \<and> map Time (WorkQueue
       (Writes (example_cfg\<lparr>WorkQueueLimit := 4\<rparr>) (\<lambda>t. []) Default
          [\<lparr>callTime = 10, callSubsystem = ''App'', callLevel = Info, callText = ''boom'', callRelogged = False\<rparr>,
           \<lparr>callTime = 20, callSubsystem = ''App'', callLevel = Info, callText = ''boom'', callRelogged = False\<rparr>,
           \<lparr>callTime = 30, callSubsystem = ''App'', callLevel = Info, callText = ''boom'', callRelogged = False\<rparr>,
           \<lparr>callTime = 40, callSubsystem = ''App'', callLevel = Info, callText = ''boom'', callRelogged = False\<rparr>,
           \<lparr>callTime = 50, callSubsystem = ''App'', callLevel = Info, callText = ''boom'', callRelogged = False\<rparr>]
          example_worker)) = [10, 20, 30, 40]
   \<and> fst (ProcessQueuedMessages (example_cfg\<lparr>WorkQueueLimit := 4\<rparr>) (\<lambda>t. []) 100
       (Writes (example_cfg\<lparr>WorkQueueLimit := 4\<rparr>) (\<lambda>t. []) Default
          [\<lparr>callTime = 10, callSubsystem = ''App'', callLevel = Info, callText = ''boom'', callRelogged = False\<rparr>,
           \<lparr>callTime = 20, callSubsystem = ''App'', callLevel = Info, callText = ''boom'', callRelogged = False\<rparr>,
           \<lparr>callTime = 30, callSubsystem = ''App'', callLevel = Info, callText = ''boom'', callRelogged = False\<rparr>,
           \<lparr>callTime = 40, callSubsystem = ''App'', callLevel = Info, callText = ''boom'', callRelogged = False\<rparr>,
           \<lparr>callTime = 50, callSubsystem = ''App'', callLevel = Info, callText = ''boom'', callRelogged = False\<rparr>]
          example_worker))
     = replicate 4 (PluginWrite \<lparr>PluginAddress = 1, UniquePluginName = ''console''\<rparr> Info ''App''
                      '' {INFO}    [App] '' ''boom'')"
  by (simp add: example_cfg_def example_worker_def RepeatedMessageManager_ctor_def
        RepeatedMessage_ctor_def Write_def Let_def HandleMessage_def WorkQueueAdd_def
        QueuedLogMessage_ctor_def GetLogMillisecondTimeDifference_def
        ProcessQueuedMessages_def Poll_def Poll_prune_def DispatchBatch_def DispatchMessage_def
        AppendHeader_def WriteAdvanceStrCpy_def eval_nat_numeral)

theorem overrun_accounting_witness:
  "Aggregated \<notin> set (fst (HandleMessages example_cfg
      [\<lparr>callTime = 10, callSubsystem = ''App'', callLevel = Info, callText = ''boom'', callRelogged = False\<rparr>,
       \<lparr>callTime = 20, callSubsystem = ''App'', callLevel = Info, callText = ''boom'', callRelogged = False\<rparr>,
       \<lparr>callTime = 30, callSubsystem = ''App'', callLevel = Info, callText = ''boom'', callRelogged = False\<rparr>]
      (RepeatedMessageManagerInstance example_worker)))
   \<and> WorkQueueLimit example_cfg + 1 = 3
   \<and> WorkQueueOverrun (Writes example_cfg (\<lambda>t. []) Default
      [\<lparr>callTime = 10, callSubsystem = ''App'', callLevel = Info, callText = ''boom'', callRelogged = False\<rparr>,
       \<lparr>callTime = 20, callSubsystem = ''App'', callLevel = Info, callText = ''boom'', callRelogged = False\<rparr>,
       \<lparr>callTime = 30, callSubsystem = ''App'', callLevel = Info, callText = ''boom'', callRelogged = False\<rparr>]
      example_worker) = 1
   \<and> map Time (WorkQueue (Writes example_cfg (\<lambda>t. []) Default
      [\<lparr>callTime = 10, callSubsystem = ''App'', callLevel = Info, callText = ''boom'', callRelogged = False\<rparr>,
       \<lparr>callTime = 20, callSubsystem = ''App'', callLevel = Info, callText = ''boom'', callRelogged = False\<rparr>,
       \<lparr>callTime = 30, callSubsystem = ''App'', callLevel = Info, callText = ''boom'', callRelogged = False\<rparr>]
      example_worker)) = [10, 20]
   \<and> fst (ProcessQueuedMessages example_cfg (\<lambda>t. []) 100
       (Writes example_cfg (\<lambda>t. []) Default
      [\<lparr>callTime = 10, callSubsystem = ''App'', callLevel = Info, callText = ''boom'', callRelogged = False\<rparr>,
       \<lparr>callTime = 20, callSubsystem = ''App'', callLevel = Info, callText = ''boom'', callRelogged = False\<rparr>,
       \<lparr>callTime = 30, callSubsystem = ''App'', callLevel = Info, callText = ''boom'', callRelogged = False\<rparr>]
      example_worker))
     = [PluginWrite \<lparr>PluginAddress = 1, UniquePluginName = ''console''\<rparr> Error ''Logging''
          '' {!ERROR!} [Logging] ''
          ''Lost 1 log messages due to queue overrun; try to reduce the amount of logging'',
        PluginWrite \<lparr>PluginAddress = 1, UniquePluginName = ''console''\<rparr> Info ''App''
          '' {INFO}    [App] '' ''boom'',
        PluginWrite \<lparr>PluginAddress = 1, UniquePluginName = ''console''\<rparr> Info ''App''
          '' {INFO}    [App] '' ''boom'']"
proof -
  let ?cs = "[\<lparr>callTime = 10, callSubsystem = ''App'', callLevel = Info, callText = ''boom'', callRelogged = False\<rparr>,
       \<lparr>callTime = 20, callSubsystem = ''App'', callLevel = Info, callText = ''boom'', callRelogged = False\<rparr>,
       \<lparr>callTime = 30, callSubsystem = ''App'', callLevel = Info, callText = ''boom'', callRelogged = False\<rparr>]"
  have h1: "WorkQueue example_worker = []"
    and h2: "WorkQueueSize example_worker = 0"
    and h3: "WorkQueueOverrun example_worker = 0"
    by (simp_all add: example_worker_def)
  have h4: "Aggregated \<notin> set (fst (HandleMessages example_cfg ?cs
                                      (RepeatedMessageManagerInstance example_worker)))"
    by (simp add: example_cfg_def example_worker_def RepeatedMessageManager_ctor_def
          RepeatedMessage_ctor_def HandleMessage_def GetLogMillisecondTimeDifference_def)
  have h5: "length ?cs = WorkQueueLimit example_cfg + 1"
    and h6: "0 < WorkQueueLimit example_cfg"
    and h7: "0 < (1::nat)"
    by (simp_all add: example_cfg_def)
  have one: "decimal (Suc 0) = ''1''"
    by (simp add: decimal.simps digit_char_def)
  from overrun_accounting [where GetTimestamp = "\<lambda>t. []" and now = 100, OF h1 h2 h3 h4 h5 h6 h7]
  show ?thesis
    using h4 h5
    by (simp add: one example_cfg_def example_worker_def RepeatedMessageManager_ctor_def
          RepeatedMessage_ctor_def Write_def Let_def HandleMessage_def WorkQueueAdd_def
          QueuedLogMessage_ctor_def GetLogMillisecondTimeDifference_def WriteCall_record_def
          DispatchMessage_def AppendHeader_def WriteAdvanceStrCpy_def)
qed

end
